theory Spec2Isabelle
  imports Main
begin

section \<open>Data model\<close>

text \<open>
  The script \<^verbatim>\<open>deploy_vm.py\<close> talks to the Compute Engine API through a client
  object \<^verbatim>\<open>compute\<close>. Request bodies and responses are JSON values; Python
  dictionaries are association lists read with \<^const>\<open>map_of\<close>
  (\<^verbatim>\<open>d.get(k)\<close> is \<open>map_of d k\<close>, \<^verbatim>\<open>k in d\<close> is \<open>map_of d k \<noteq> None\<close>).
\<close>

datatype json =
    JNull
  | JBool bool
  | JInt int
  | JStr string
  | JList "json list"
  | JDict "(string \<times> json) list"

type_synonym dict = "(string \<times> json) list"

text \<open>
  The exceptions the script can end with: \<^verbatim>\<open>Exception(result['error'])\<close> raised by the
  two waiters, the \<^verbatim>\<open>KeyError\<close> of a subscript on a missing key
  (\<^verbatim>\<open>operation['name']\<close>, \<^verbatim>\<open>address['address']\<close>), and the error that a call of
  \<^verbatim>\<open>.execute()\<close> raises itself, which no function of the script catches.
\<close>

datatype py_error =
    Exception json
  | KeyError string
  | HttpError string

text \<open>One constructor per API method that the script calls, with the keyword arguments.\<close>

datatype request =
    AddressesInsert string string json
  | RegionOperationsGet string string json
  | AddressesGet string string string
  | FirewallsInsert string json
  | GlobalOperationsGet string json
  | InstancesInsert string string json
  | ZoneOperationsGet string string json

text \<open>
  A call of \<^verbatim>\<open>.execute()\<close> either raises (\<open>Inl\<close>, with the message of the error) or
  returns the parsed response, a dictionary (\<open>Inr\<close>). The client is any function of the
  requests made so far and their answers: the trace is the whole state of a run, and it
  records each round-trip in the order it is made.
\<close>

type_synonym response = "string + dict"
type_synonym event = "request \<times> response"
type_synonym trace = "event list"
type_synonym client = "trace \<Rightarrow> request \<Rightarrow> response"
type_synonym 'a outcome = "((py_error + 'a) \<times> trace) option"

definition execute :: "client \<Rightarrow> request \<Rightarrow> trace \<Rightarrow> response \<times> trace" where
  "execute compute req tr = (compute tr req, tr @ [(req, compute tr req)])"

section \<open>The operation waiters\<close>

text \<open>
  \<^verbatim>\<open>while True\<close> has no bound, so each loop is a partial function: \<open>None\<close> is a loop
  that never exits. \<^verbatim>\<open>print\<close> and \<^verbatim>\<open>time.sleep(1)\<close> change neither the control flow
  nor a value and are left out.
\<close>

partial_function (option) wait_for_operation ::
  "client \<Rightarrow> string \<Rightarrow> string \<Rightarrow> json \<Rightarrow> trace \<Rightarrow> unit outcome" where
  "wait_for_operation compute project zone operation tr =
     (case execute compute (ZoneOperationsGet project zone operation) tr of
        (Inl msg, tr') \<Rightarrow> Some (Inl (HttpError msg), tr')
      | (Inr result, tr') \<Rightarrow>
          if map_of result ''status'' = Some (JStr ''DONE'') then
            (case map_of result ''error'' of
               Some err \<Rightarrow> Some (Inl (Exception err), tr')
             | None \<Rightarrow> Some (Inr (), tr'))
          else wait_for_operation compute project zone operation tr')"

partial_function (option) wait_for_global_operation ::
  "client \<Rightarrow> string \<Rightarrow> json \<Rightarrow> trace \<Rightarrow> unit outcome" where
  "wait_for_global_operation compute project operation tr =
     (case execute compute (GlobalOperationsGet project operation) tr of
        (Inl msg, tr') \<Rightarrow> Some (Inl (HttpError msg), tr')
      | (Inr result, tr') \<Rightarrow>
          if map_of result ''status'' = Some (JStr ''DONE'') then
            (case map_of result ''error'' of
               Some err \<Rightarrow> Some (Inl (Exception err), tr')
             | None \<Rightarrow> Some (Inr (), tr'))
          else wait_for_global_operation compute project operation tr')"

section \<open>The provisioners\<close>

text \<open>
  The loop inside \<^verbatim>\<open>create_address\<close>. It evaluates \<^verbatim>\<open>operation['name']\<close> on every
  iteration, before the request, and leaves at \<^verbatim>\<open>DONE\<close> without looking at
  \<^verbatim>\<open>'error'\<close>.
\<close>

partial_function (option) create_address_poll ::
  "client \<Rightarrow> string \<Rightarrow> string \<Rightarrow> dict \<Rightarrow> trace \<Rightarrow> unit outcome" where
  "create_address_poll compute project region operation tr =
     (case map_of operation ''name'' of
        None \<Rightarrow> Some (Inl (KeyError ''name''), tr)
      | Some opname \<Rightarrow>
          (case execute compute (RegionOperationsGet project region opname) tr of
             (Inl msg, tr') \<Rightarrow> Some (Inl (HttpError msg), tr')
           | (Inr result, tr') \<Rightarrow>
               if map_of result ''status'' = Some (JStr ''DONE'') then Some (Inr (), tr')
               else create_address_poll compute project region operation tr'))"

definition create_address ::
  "client \<Rightarrow> string \<Rightarrow> string \<Rightarrow> string \<Rightarrow> trace \<Rightarrow> json outcome" where
  "create_address compute project region address_name tr =
     (case execute compute
             (AddressesInsert project region (JDict [(''name'', JStr address_name)])) tr of
        (Inl msg, tr1) \<Rightarrow> Some (Inl (HttpError msg), tr1)
      | (Inr operation, tr1) \<Rightarrow>
          (case create_address_poll compute project region operation tr1 of
             None \<Rightarrow> None
           | Some (Inl e, tr2) \<Rightarrow> Some (Inl e, tr2)
           | Some (Inr u, tr2) \<Rightarrow>
               (case execute compute (AddressesGet project region address_name) tr2 of
                  (Inl msg, tr3) \<Rightarrow> Some (Inl (HttpError msg), tr3)
                | (Inr address, tr3) \<Rightarrow>
                    (case map_of address ''address'' of
                       None \<Rightarrow> Some (Inl (KeyError ''address''), tr3)
                     | Some ip \<Rightarrow> Some (Inr ip, tr3)))))"

definition firewall_body :: "string \<Rightarrow> json" where
  "firewall_body firewall_name =
     JDict [
       (''name'', JStr firewall_name),
       (''allowed'', JList [
          JDict [(''IPProtocol'', JStr ''tcp''), (''ports'', JList [JStr ''22'', JStr ''80''])]]),
       (''direction'', JStr ''INGRESS''),
       (''sourceRanges'', JList [JStr ''0.0.0.0/0''])]"

definition create_firewall_rule ::
  "client \<Rightarrow> string \<Rightarrow> string \<Rightarrow> trace \<Rightarrow> unit outcome" where
  "create_firewall_rule compute project firewall_name tr =
     (case execute compute (FirewallsInsert project (firewall_body firewall_name)) tr of
        (Inl msg, tr1) \<Rightarrow> Some (Inl (HttpError msg), tr1)
      | (Inr operation, tr1) \<Rightarrow>
          (case map_of operation ''name'' of
             None \<Rightarrow> Some (Inl (KeyError ''name''), tr1)
           | Some opname \<Rightarrow> wait_for_global_operation compute project opname tr1))"

definition config ::
  "string \<Rightarrow> string \<Rightarrow> json \<Rightarrow> string \<Rightarrow> string \<Rightarrow> int \<Rightarrow> json" where
  "config zone instance_name static_ip machine_type source_image disk_size_gb =
     (let machine_type_full = ''zones/'' @ zone @ ''/machineTypes/'' @ machine_type in
      JDict [
        (''name'', JStr instance_name),
        (''machine_type'', JStr machine_type_full),
        (''disks'', JList [JDict [
           (''boot'', JBool True),
           (''autoDelete'', JBool True),
           (''initializeParams'', JDict [
              (''sourceImage'', JStr source_image),
              (''diskSizeGb'', JInt disk_size_gb)])]]),
        (''networkInterfaces'', JList [JDict [
           (''network'', JStr ''global/networks/default''),
           (''accessConfigs'', JList [JDict [
              (''name'', JStr ''External_NAT''),
              (''type'', JStr ''ONE_TO_ONE_NAT''),
              (''natIP'', static_ip)]])]]),
        (''tags'', JDict [(''items'', JList [JStr ''http-server'', JStr ''ssh-server''])])])"

definition create_instance ::
  "client \<Rightarrow> string \<Rightarrow> string \<Rightarrow> string \<Rightarrow> json \<Rightarrow> string \<Rightarrow> string \<Rightarrow> int \<Rightarrow> trace
     \<Rightarrow> unit outcome" where
  "create_instance compute project zone instance_name static_ip machine_type source_image
       disk_size_gb tr =
     (case execute compute
             (InstancesInsert project zone
                (config zone instance_name static_ip machine_type source_image disk_size_gb))
             tr of
        (Inl msg, tr1) \<Rightarrow> Some (Inl (HttpError msg), tr1)
      | (Inr operation, tr1) \<Rightarrow>
          (case map_of operation ''name'' of
             None \<Rightarrow> Some (Inl (KeyError ''name''), tr1)
           | Some opname \<Rightarrow> wait_for_operation compute project zone opname tr1))"

section \<open>The orchestrator\<close>

text \<open>
  \<^verbatim>\<open>main\<close> builds the client and runs the three steps. The client that
  \<^verbatim>\<open>discovery.build\<close> returns is the parameter here, and the run starts with no
  request made.
\<close>

definition main :: "client \<Rightarrow> unit outcome" where
  "main compute =
     (let project = ''cloud-assignment-450118'';
          region = ''us-central1'';
          zone = ''us-central1-a'';
          address_name = ''vm-static-ip'';
          firewall_name = ''allow-ssh-http'';
          instance_name = ''cloud-ca-vm-instance'';
          machine_type = ''n1-standard-2'';
          disk_size_gb = 250;
          source_image = ''projects/ubuntu-os-cloud/global/images/family/ubuntu-2004-lts''
      in case create_address compute project region address_name [] of
           None \<Rightarrow> None
         | Some (Inl e, tr1) \<Rightarrow> Some (Inl e, tr1)
         | Some (Inr static_ip, tr1) \<Rightarrow>
             (case create_firewall_rule compute project firewall_name tr1 of
                None \<Rightarrow> None
              | Some (Inl e, tr2) \<Rightarrow> Some (Inl e, tr2)
              | Some (Inr u, tr2) \<Rightarrow>
                  create_instance compute project zone instance_name static_ip machine_type
                    source_image disk_size_gb tr2))"

section \<open>Observing a run\<close>

text \<open>
  A poll loop sends the same request again and again. \<open>polls compute req tr n\<close> is the
  trace after \<open>n\<close> such queries from \<open>tr\<close>, and \<open>answer compute req tr n\<close> is what the
  client answers to query number \<open>n\<close>, counted from 0.
\<close>

fun polls :: "client \<Rightarrow> request \<Rightarrow> trace \<Rightarrow> nat \<Rightarrow> trace" where
  "polls compute req tr 0 = tr"
| "polls compute req tr (Suc n) = polls compute req (snd (execute compute req tr)) n"

definition answer :: "client \<Rightarrow> request \<Rightarrow> trace \<Rightarrow> nat \<Rightarrow> response" where
  "answer compute req tr n = compute (polls compute req tr n) req"

text \<open>
  An answer is terminal when it is an operation resource whose status is \<^verbatim>\<open>DONE\<close>, and
  pending when it is an operation resource with any other status (or none). A query
  that raised is neither.
\<close>

definition is_done :: "response \<Rightarrow> bool" where
  "is_done resp =
     (case resp of
        Inl msg \<Rightarrow> False
      | Inr result \<Rightarrow> map_of result ''status'' = Some (JStr ''DONE''))"

definition pending :: "response \<Rightarrow> bool" where
  "pending resp =
     (case resp of
        Inl msg \<Rightarrow> False
      | Inr result \<Rightarrow> map_of result ''status'' \<noteq> Some (JStr ''DONE''))"

text \<open>What the zonal and the global waiter do with a terminal operation resource.\<close>

definition raise_on_error :: "dict \<Rightarrow> py_error + unit" where
  "raise_on_error result =
     (case map_of result ''error'' of
        Some err \<Rightarrow> Inl (Exception err)
      | None \<Rightarrow> Inr ())"

text \<open>What the loop of \<^verbatim>\<open>create_address\<close> does with it.\<close>

definition ignore_error :: "dict \<Rightarrow> py_error + unit" where
  "ignore_error result = Inr ()"

definition stop_result :: "(dict \<Rightarrow> py_error + unit) \<Rightarrow> response \<Rightarrow> py_error + unit" where
  "stop_result g resp =
     (case resp of
        Inl msg \<Rightarrow> Inl (HttpError msg)
      | Inr result \<Rightarrow> g result)"

text \<open>
  The provisioner a request belongs to: the address provisioner submits the allocation,
  polls the regional operation and fetches the address; the firewall provisioner submits
  the rule and polls the global operation; the instance provisioner submits the instance
  and polls the zonal operation.
\<close>

datatype component = Address | Firewall | Instance

fun component_of :: "request \<Rightarrow> component" where
  "component_of (AddressesInsert project region body) = Address"
| "component_of (RegionOperationsGet project region operation) = Address"
| "component_of (AddressesGet project region address) = Address"
| "component_of (FirewallsInsert project body) = Firewall"
| "component_of (GlobalOperationsGet project operation) = Firewall"
| "component_of (InstancesInsert project zone body) = Instance"
| "component_of (ZoneOperationsGet project zone operation) = Instance"

fun is_instances_insert :: "request \<Rightarrow> bool" where
  "is_instances_insert (InstancesInsert project zone body) = True"
| "is_instances_insert req = False"

fun is_firewalls_insert :: "request \<Rightarrow> bool" where
  "is_firewalls_insert (FirewallsInsert project body) = True"
| "is_firewalls_insert req = False"

fun is_addresses_get :: "request \<Rightarrow> bool" where
  "is_addresses_get (AddressesGet project region address) = True"
| "is_addresses_get req = False"

text \<open>
  Reading a request body: \<open>jget k\<close> is the entry \<open>k\<close> of a JSON object, \<open>jfirst\<close> the
  element 0 of a JSON array, and \<open>natIP body\<close> is
  \<^verbatim>\<open>body['networkInterfaces'][0]['accessConfigs'][0]['natIP']\<close>.
\<close>

fun jget :: "string \<Rightarrow> json \<Rightarrow> json option" where
  "jget k (JDict d) = map_of d k"
| "jget k v = None"

fun jfirst :: "json \<Rightarrow> json option" where
  "jfirst (JList (x # xs)) = Some x"
| "jfirst v = None"

definition natIP :: "json \<Rightarrow> json option" where
  "natIP body =
     Option.bind (jget ''networkInterfaces'' body) (\<lambda>interfaces.
     Option.bind (jfirst interfaces) (\<lambda>interface.
     Option.bind (jget ''accessConfigs'' interface) (\<lambda>access_configs.
     Option.bind (jfirst access_configs) (\<lambda>access_config.
     jget ''natIP'' access_config))))"

text \<open>
  A run that never ends has no final trace. It is observed through the runs against
  \<open>cut_off n compute\<close>, a client that answers as \<open>compute\<close> does while fewer than \<open>n\<close>
  round-trips have been made and fails every request after that, as a mock does that
  stops answering. Every run against such a client ends.
\<close>

definition cut_off :: "nat \<Rightarrow> client \<Rightarrow> client" where
  "cut_off n compute tr req = (if length tr < n then compute tr req else Inl ''cut'')"

section \<open>Mock clients\<close>

text \<open>
  The clients of the scenarios. \<open>running_then_done n\<close> answers \<^verbatim>\<open>RUNNING\<close> to the
  first \<open>n\<close> requests and \<^verbatim>\<open>DONE\<close>, with no error, from then on.
\<close>

definition running_then_done :: "nat \<Rightarrow> client" where
  "running_then_done n tr req =
     (if length tr < n then Inr [(''status'', JStr ''RUNNING'')]
      else Inr [(''status'', JStr ''DONE'')])"

text \<open>
  \<open>mock_client regional global_op zonal\<close> accepts every submission, answers every
  status query of a scope with the operation resource given for that scope, and has
  the address \<^verbatim>\<open>34.1.2.3\<close> to fetch.
\<close>

definition mock_client :: "dict \<Rightarrow> dict \<Rightarrow> dict \<Rightarrow> client" where
  "mock_client regional global_op zonal tr req =
     (case req of
        AddressesInsert project region body \<Rightarrow> Inr [(''name'', JStr ''operation-address'')]
      | RegionOperationsGet project region operation \<Rightarrow> Inr regional
      | AddressesGet project region address \<Rightarrow> Inr [(''address'', JStr ''34.1.2.3'')]
      | FirewallsInsert project body \<Rightarrow> Inr [(''name'', JStr ''operation-firewall'')]
      | GlobalOperationsGet project operation \<Rightarrow> Inr global_op
      | InstancesInsert project zone body \<Rightarrow> Inr [(''name'', JStr ''operation-instance'')]
      | ZoneOperationsGet project zone operation \<Rightarrow> Inr zonal)"

definition done_ok :: dict where
  "done_ok = [(''status'', JStr ''DONE'')]"

definition still_running :: dict where
  "still_running = [(''status'', JStr ''RUNNING'')]"

definition done_quota_exceeded :: dict where
  "done_quota_exceeded =
     [(''status'', JStr ''DONE''),
      (''error'', JDict [(''message'', JStr ''quota exceeded'')])]"

text \<open>
  A client whose first answer is a \<^verbatim>\<open>RUNNING\<close> operation that already carries an
  error payload, and whose later answers are \<^verbatim>\<open>DONE\<close> without one.
\<close>

definition early_error_client :: client where
  "early_error_client tr req =
     (if tr = [] then
        Inr [(''status'', JStr ''RUNNING''),
             (''error'', JDict [(''message'', JStr ''transient'')])]
      else Inr [(''status'', JStr ''DONE'')])"

section \<open>One iteration of each loop\<close>

lemma answer_0: "answer compute req tr 0 = compute tr req"
  by (simp add: answer_def)

lemma answer_Suc:
  "answer compute req tr (Suc n) = answer compute req (tr @ [(req, compute tr req)]) n"
  by (simp add: answer_def execute_def)

lemma polls_Suc_append:
  "polls compute req tr (Suc n) = polls compute req tr n @ [(req, answer compute req tr n)]"
proof (induction n arbitrary: tr)
  case 0
  show ?case by (simp add: execute_def answer_def)
next
  case (Suc n)
  have "polls compute req tr (Suc (Suc n)) =
        polls compute req (tr @ [(req, compute tr req)]) (Suc n)"
    by (simp add: execute_def)
  also have "\<dots> = polls compute req (tr @ [(req, compute tr req)]) n @
        [(req, answer compute req (tr @ [(req, compute tr req)]) n)]"
    by (rule Suc.IH)
  finally show ?case by (simp add: answer_Suc execute_def)
qed

lemma polls_eq_map:
  "polls compute req tr n = tr @ map (\<lambda>k. (req, answer compute req tr k)) [0..<n]"
proof (induction n)
  case 0
  show ?case by simp
next
  case (Suc n)
  show ?case
    unfolding polls_Suc_append Suc.IH by simp
qed

lemma length_polls: "length (polls compute req tr n) = length tr + n"
  by (simp add: polls_eq_map)

lemma pending_not_done: "pending resp \<Longrightarrow> \<not> is_done resp"
  by (simp add: pending_def is_done_def split: sum.splits)

lemma not_pending_cases:
  "\<not> pending resp \<longleftrightarrow> (\<exists>msg. resp = Inl msg) \<or> is_done resp"
  by (simp add: pending_def is_done_def split: sum.splits)

lemma wait_for_operation_pending:
  "pending (compute tr (ZoneOperationsGet project zone operation)) \<Longrightarrow>
   wait_for_operation compute project zone operation tr =
   wait_for_operation compute project zone operation
     (tr @ [(ZoneOperationsGet project zone operation,
             compute tr (ZoneOperationsGet project zone operation))])"
  by (subst wait_for_operation.simps)
     (simp add: execute_def pending_def split: sum.splits)

lemma wait_for_operation_done:
  "compute tr (ZoneOperationsGet project zone operation) = Inr result \<Longrightarrow>
   map_of result ''status'' = Some (JStr ''DONE'') \<Longrightarrow>
   wait_for_operation compute project zone operation tr =
   Some (raise_on_error result, tr @ [(ZoneOperationsGet project zone operation, Inr result)])"
  by (subst wait_for_operation.simps)
     (simp add: execute_def raise_on_error_def split: option.splits)

lemma wait_for_operation_failed:
  "compute tr (ZoneOperationsGet project zone operation) = Inl msg \<Longrightarrow>
   wait_for_operation compute project zone operation tr =
   Some (Inl (HttpError msg), tr @ [(ZoneOperationsGet project zone operation, Inl msg)])"
  by (subst wait_for_operation.simps) (simp add: execute_def)

lemma wait_for_operation_exits:
  "wait_for_operation compute project zone operation tr = Some y \<Longrightarrow>
   \<exists>n. \<not> pending (answer compute (ZoneOperationsGet project zone operation) tr n)"
proof (induction rule: wait_for_operation.raw_induct [rotated 1, consumes 1, case_names step])
  case (step w compute project zone operation tr y)
  let ?req = "ZoneOperationsGet project zone operation"
  show ?case
  proof (cases "pending (compute tr ?req)")
    case False
    then have "\<not> pending (answer compute ?req tr 0)" by (simp add: answer_0)
    then show ?thesis by blast
  next
    case True
    with step.hyps
    have "w compute project zone operation (tr @ [(?req, compute tr ?req)]) = Some y"
      by (auto simp: execute_def pending_def split: sum.splits)
    then obtain n where "\<not> pending (answer compute ?req (tr @ [(?req, compute tr ?req)]) n)"
      using step.IH by blast
    then have "\<not> pending (answer compute ?req tr (Suc n))" by (simp add: answer_Suc)
    then show ?thesis by blast
  qed
qed

lemma wait_for_global_operation_pending:
  "pending (compute tr (GlobalOperationsGet project operation)) \<Longrightarrow>
   wait_for_global_operation compute project operation tr =
   wait_for_global_operation compute project operation
     (tr @ [(GlobalOperationsGet project operation,
             compute tr (GlobalOperationsGet project operation))])"
  by (subst wait_for_global_operation.simps)
     (simp add: execute_def pending_def split: sum.splits)

lemma wait_for_global_operation_done:
  "compute tr (GlobalOperationsGet project operation) = Inr result \<Longrightarrow>
   map_of result ''status'' = Some (JStr ''DONE'') \<Longrightarrow>
   wait_for_global_operation compute project operation tr =
   Some (raise_on_error result, tr @ [(GlobalOperationsGet project operation, Inr result)])"
  by (subst wait_for_global_operation.simps)
     (simp add: execute_def raise_on_error_def split: option.splits)

lemma wait_for_global_operation_failed:
  "compute tr (GlobalOperationsGet project operation) = Inl msg \<Longrightarrow>
   wait_for_global_operation compute project operation tr =
   Some (Inl (HttpError msg), tr @ [(GlobalOperationsGet project operation, Inl msg)])"
  by (subst wait_for_global_operation.simps) (simp add: execute_def)

lemma wait_for_global_operation_exits:
  "wait_for_global_operation compute project operation tr = Some y \<Longrightarrow>
   \<exists>n. \<not> pending (answer compute (GlobalOperationsGet project operation) tr n)"
proof (induction rule:
    wait_for_global_operation.raw_induct [rotated 1, consumes 1, case_names step])
  case (step w compute project operation tr y)
  let ?req = "GlobalOperationsGet project operation"
  show ?case
  proof (cases "pending (compute tr ?req)")
    case False
    then have "\<not> pending (answer compute ?req tr 0)" by (simp add: answer_0)
    then show ?thesis by blast
  next
    case True
    with step.hyps
    have "w compute project operation (tr @ [(?req, compute tr ?req)]) = Some y"
      by (auto simp: execute_def pending_def split: sum.splits)
    then obtain n where "\<not> pending (answer compute ?req (tr @ [(?req, compute tr ?req)]) n)"
      using step.IH by blast
    then have "\<not> pending (answer compute ?req tr (Suc n))" by (simp add: answer_Suc)
    then show ?thesis by blast
  qed
qed

lemma create_address_poll_KeyError:
  "map_of operation ''name'' = None \<Longrightarrow>
   create_address_poll compute project region operation tr = Some (Inl (KeyError ''name''), tr)"
  by (subst create_address_poll.simps) simp

lemma create_address_poll_pending:
  "map_of operation ''name'' = Some opname \<Longrightarrow>
   pending (compute tr (RegionOperationsGet project region opname)) \<Longrightarrow>
   create_address_poll compute project region operation tr =
   create_address_poll compute project region operation
     (tr @ [(RegionOperationsGet project region opname,
             compute tr (RegionOperationsGet project region opname))])"
  by (subst create_address_poll.simps)
     (simp add: execute_def pending_def split: sum.splits)

lemma create_address_poll_done:
  "map_of operation ''name'' = Some opname \<Longrightarrow>
   compute tr (RegionOperationsGet project region opname) = Inr result \<Longrightarrow>
   map_of result ''status'' = Some (JStr ''DONE'') \<Longrightarrow>
   create_address_poll compute project region operation tr =
   Some (ignore_error result, tr @ [(RegionOperationsGet project region opname, Inr result)])"
  by (subst create_address_poll.simps) (simp add: execute_def ignore_error_def)

lemma create_address_poll_failed:
  "map_of operation ''name'' = Some opname \<Longrightarrow>
   compute tr (RegionOperationsGet project region opname) = Inl msg \<Longrightarrow>
   create_address_poll compute project region operation tr =
   Some (Inl (HttpError msg), tr @ [(RegionOperationsGet project region opname, Inl msg)])"
  by (subst create_address_poll.simps) (simp add: execute_def)

lemma create_address_poll_exits:
  "create_address_poll compute project region operation tr = Some y \<Longrightarrow>
   map_of operation ''name'' = Some opname \<Longrightarrow>
   \<exists>n. \<not> pending (answer compute (RegionOperationsGet project region opname) tr n)"
proof (induction rule:
    create_address_poll.raw_induct [rotated 1, consumes 1, case_names step])
  case (step w compute project region operation tr y)
  let ?req = "RegionOperationsGet project region opname"
  show ?case
  proof (cases "pending (compute tr ?req)")
    case False
    then have "\<not> pending (answer compute ?req tr 0)" by (simp add: answer_0)
    then show ?thesis by blast
  next
    case True
    with step.hyps step.prems
    have "w compute project region operation (tr @ [(?req, compute tr ?req)]) = Some y"
      by (auto simp: execute_def pending_def split: sum.splits)
    then obtain n where "\<not> pending (answer compute ?req (tr @ [(?req, compute tr ?req)]) n)"
      using step.IH step.prems by blast
    then have "\<not> pending (answer compute ?req tr (Suc n))" by (simp add: answer_Suc)
    then show ?thesis by blast
  qed
qed

section \<open>The three loops stop at the first answer that is not pending\<close>

lemma poll_loop_skips:
  fixes f :: "trace \<Rightarrow> unit outcome"
  assumes step: "\<And>t. pending (compute t req) \<Longrightarrow> f t = f (t @ [(req, compute t req)])"
    and pend: "\<forall>k<n. pending (answer compute req tr k)"
  shows "f tr = f (polls compute req tr n)"
  using pend
proof (induction n)
  case 0
  show ?case by simp
next
  case (Suc n)
  then have "f tr = f (polls compute req tr n)" by simp
  also have "\<dots> = f (polls compute req tr n @ [(req, answer compute req tr n)])"
    using Suc.prems step [of "polls compute req tr n"] by (simp add: answer_def)
  finally show ?case by (simp only: polls_Suc_append)
qed

lemma poll_loop_stops:
  fixes f :: "trace \<Rightarrow> unit outcome"
  assumes step: "\<And>t. pending (compute t req) \<Longrightarrow> f t = f (t @ [(req, compute t req)])"
    and fin: "\<And>t result. compute t req = Inr result \<Longrightarrow>
                map_of result ''status'' = Some (JStr ''DONE'') \<Longrightarrow>
                f t = Some (g result, t @ [(req, Inr result)])"
    and failed: "\<And>t msg. compute t req = Inl msg \<Longrightarrow>
                f t = Some (Inl (HttpError msg), t @ [(req, Inl msg)])"
    and pend: "\<forall>k<n. pending (answer compute req tr k)"
    and stop: "\<not> pending (answer compute req tr n)"
  shows "f tr = Some (stop_result g (answer compute req tr n), polls compute req tr (Suc n))"
proof -
  let ?t = "polls compute req tr n"
  have eq: "f tr = f ?t"
    using step pend by (rule poll_loop_skips)
  show ?thesis
  proof (cases "answer compute req tr n")
    case (Inl msg)
    then have "compute ?t req = Inl msg" by (simp add: answer_def)
    then have "f ?t = Some (Inl (HttpError msg), ?t @ [(req, Inl msg)])" by (rule failed)
    with eq Inl show ?thesis by (simp add: polls_Suc_append stop_result_def del: polls.simps)
  next
    case (Inr result)
    then have c: "compute ?t req = Inr result" by (simp add: answer_def)
    from stop Inr have "map_of result ''status'' = Some (JStr ''DONE'')"
      by (simp add: pending_def)
    with c have "f ?t = Some (g result, ?t @ [(req, Inr result)])" by (rule fin)
    with eq Inr show ?thesis by (simp add: polls_Suc_append stop_result_def del: polls.simps)
  qed
qed

lemma first_stop:
  assumes "\<not> pending (answer compute req tr m)"
  shows "\<exists>n. (\<forall>k<n. pending (answer compute req tr k)) \<and> \<not> pending (answer compute req tr n)"
proof -
  from assms have "\<exists>n. \<not> pending (answer compute req tr n)" by blast
  then obtain n where "\<not> pending (answer compute req tr n)"
    and "\<forall>k<n. \<not> \<not> pending (answer compute req tr k)"
    unfolding exists_least_iff [of "\<lambda>n. \<not> pending (answer compute req tr n)"] by blast
  then show ?thesis by auto
qed

lemma poll_loop_Some_iff:
  fixes f :: "trace \<Rightarrow> unit outcome"
  assumes step: "\<And>t. pending (compute t req) \<Longrightarrow> f t = f (t @ [(req, compute t req)])"
    and fin: "\<And>t result. compute t req = Inr result \<Longrightarrow>
                map_of result ''status'' = Some (JStr ''DONE'') \<Longrightarrow>
                f t = Some (g result, t @ [(req, Inr result)])"
    and failed: "\<And>t msg. compute t req = Inl msg \<Longrightarrow>
                f t = Some (Inl (HttpError msg), t @ [(req, Inl msg)])"
    and exits: "\<And>t y. f t = Some y \<Longrightarrow> \<exists>n. \<not> pending (answer compute req t n)"
  shows "f tr = Some (r, tr') \<longleftrightarrow>
         (\<exists>n. (\<forall>k<n. pending (answer compute req tr k)) \<and>
              \<not> pending (answer compute req tr n) \<and>
              r = stop_result g (answer compute req tr n) \<and>
              tr' = polls compute req tr (Suc n))"
proof
  assume some: "f tr = Some (r, tr')"
  then obtain m where "\<not> pending (answer compute req tr m)"
    using exits by blast
  then obtain n where n: "\<forall>k<n. pending (answer compute req tr k)"
      "\<not> pending (answer compute req tr n)"
    using first_stop by blast
  from step fin failed n
  have "f tr = Some (stop_result g (answer compute req tr n), polls compute req tr (Suc n))"
    by (rule poll_loop_stops)
  with some n show "\<exists>n. (\<forall>k<n. pending (answer compute req tr k)) \<and>
              \<not> pending (answer compute req tr n) \<and>
              r = stop_result g (answer compute req tr n) \<and>
              tr' = polls compute req tr (Suc n)"
    by auto
next
  assume "\<exists>n. (\<forall>k<n. pending (answer compute req tr k)) \<and>
              \<not> pending (answer compute req tr n) \<and>
              r = stop_result g (answer compute req tr n) \<and>
              tr' = polls compute req tr (Suc n)"
  then obtain n where n: "\<forall>k<n. pending (answer compute req tr k)"
      "\<not> pending (answer compute req tr n)"
    and r: "r = stop_result g (answer compute req tr n)"
      "tr' = polls compute req tr (Suc n)"
    by blast
  from step fin failed n
  have "f tr = Some (stop_result g (answer compute req tr n), polls compute req tr (Suc n))"
    by (rule poll_loop_stops)
  with r show "f tr = Some (r, tr')" by simp
qed

lemma wait_for_operation_Some_iff:
  "wait_for_operation compute project zone operation tr = Some (r, tr') \<longleftrightarrow>
   (\<exists>n. (\<forall>k<n. pending (answer compute (ZoneOperationsGet project zone operation) tr k)) \<and>
        \<not> pending (answer compute (ZoneOperationsGet project zone operation) tr n) \<and>
        r = stop_result raise_on_error
              (answer compute (ZoneOperationsGet project zone operation) tr n) \<and>
        tr' = polls compute (ZoneOperationsGet project zone operation) tr (Suc n))"
  by (rule poll_loop_Some_iff)
     (fact wait_for_operation_pending wait_for_operation_done wait_for_operation_failed
        wait_for_operation_exits)+

lemma wait_for_global_operation_Some_iff:
  "wait_for_global_operation compute project operation tr = Some (r, tr') \<longleftrightarrow>
   (\<exists>n. (\<forall>k<n. pending (answer compute (GlobalOperationsGet project operation) tr k)) \<and>
        \<not> pending (answer compute (GlobalOperationsGet project operation) tr n) \<and>
        r = stop_result raise_on_error
              (answer compute (GlobalOperationsGet project operation) tr n) \<and>
        tr' = polls compute (GlobalOperationsGet project operation) tr (Suc n))"
  by (rule poll_loop_Some_iff)
     (fact wait_for_global_operation_pending wait_for_global_operation_done
        wait_for_global_operation_failed wait_for_global_operation_exits)+

lemma create_address_poll_Some_iff:
  assumes name: "map_of operation ''name'' = Some opname"
  shows "create_address_poll compute project region operation tr = Some (r, tr') \<longleftrightarrow>
   (\<exists>n. (\<forall>k<n. pending (answer compute (RegionOperationsGet project region opname) tr k)) \<and>
        \<not> pending (answer compute (RegionOperationsGet project region opname) tr n) \<and>
        r = stop_result ignore_error
              (answer compute (RegionOperationsGet project region opname) tr n) \<and>
        tr' = polls compute (RegionOperationsGet project region opname) tr (Suc n))"
proof (rule poll_loop_Some_iff)
  fix t
  assume "pending (compute t (RegionOperationsGet project region opname))"
  with name show "create_address_poll compute project region operation t =
     create_address_poll compute project region operation
       (t @ [(RegionOperationsGet project region opname,
              compute t (RegionOperationsGet project region opname))])"
    by (rule create_address_poll_pending)
next
  fix t result
  assume "compute t (RegionOperationsGet project region opname) = Inr result"
    and "map_of result ''status'' = Some (JStr ''DONE'')"
  with name show "create_address_poll compute project region operation t =
     Some (ignore_error result, t @ [(RegionOperationsGet project region opname, Inr result)])"
    by (rule create_address_poll_done)
next
  fix t msg
  assume "compute t (RegionOperationsGet project region opname) = Inl msg"
  with name show "create_address_poll compute project region operation t =
     Some (Inl (HttpError msg), t @ [(RegionOperationsGet project region opname, Inl msg)])"
    by (rule create_address_poll_failed)
next
  fix t y
  assume "create_address_poll compute project region operation t = Some y"
  then show "\<exists>n. \<not> pending (answer compute (RegionOperationsGet project region opname) t n)"
    using name by (rule create_address_poll_exits)
qed

lemma Some_iff_None:
  fixes f :: "trace \<Rightarrow> unit outcome"
  assumes iff: "\<And>r tr'. f tr = Some (r, tr') \<longleftrightarrow>
         (\<exists>n. (\<forall>k<n. pending (answer compute req tr k)) \<and>
              \<not> pending (answer compute req tr n) \<and>
              r = stop_result g (answer compute req tr n) \<and>
              tr' = polls compute req tr (Suc n))"
    and all: "\<forall>k. pending (answer compute req tr k)"
  shows "f tr = None"
proof (cases "f tr")
  case None
  then show ?thesis .
next
  case (Some y)
  obtain r tr' where "y = (r, tr')" by (cases y)
  with Some iff [of r tr'] all show ?thesis by auto
qed

lemma wait_for_operation_unfold:
  "wait_for_operation compute project zone operation tr =
     (case compute tr (ZoneOperationsGet project zone operation) of
        Inl msg \<Rightarrow>
          Some (Inl (HttpError msg), tr @ [(ZoneOperationsGet project zone operation, Inl msg)])
      | Inr result \<Rightarrow>
          if map_of result ''status'' = Some (JStr ''DONE'') then
            Some (raise_on_error result,
                  tr @ [(ZoneOperationsGet project zone operation, Inr result)])
          else wait_for_operation compute project zone operation
                 (tr @ [(ZoneOperationsGet project zone operation, Inr result)]))"
  by (subst wait_for_operation.simps)
     (simp add: execute_def raise_on_error_def split: sum.splits option.splits)

lemma wait_for_global_operation_unfold:
  "wait_for_global_operation compute project operation tr =
     (case compute tr (GlobalOperationsGet project operation) of
        Inl msg \<Rightarrow>
          Some (Inl (HttpError msg), tr @ [(GlobalOperationsGet project operation, Inl msg)])
      | Inr result \<Rightarrow>
          if map_of result ''status'' = Some (JStr ''DONE'') then
            Some (raise_on_error result,
                  tr @ [(GlobalOperationsGet project operation, Inr result)])
          else wait_for_global_operation compute project operation
                 (tr @ [(GlobalOperationsGet project operation, Inr result)]))"
  by (subst wait_for_global_operation.simps)
     (simp add: execute_def raise_on_error_def split: sum.splits option.splits)

lemma create_address_poll_unfold:
  "create_address_poll compute project region operation tr =
     (case map_of operation ''name'' of
        None \<Rightarrow> Some (Inl (KeyError ''name''), tr)
      | Some opname \<Rightarrow>
          (case compute tr (RegionOperationsGet project region opname) of
             Inl msg \<Rightarrow>
               Some (Inl (HttpError msg),
                     tr @ [(RegionOperationsGet project region opname, Inl msg)])
           | Inr result \<Rightarrow>
               if map_of result ''status'' = Some (JStr ''DONE'') then
                 Some (Inr (), tr @ [(RegionOperationsGet project region opname, Inr result)])
               else create_address_poll compute project region operation
                      (tr @ [(RegionOperationsGet project region opname, Inr result)])))"
  by (subst create_address_poll.simps)
     (simp add: execute_def split: sum.splits option.splits)

lemma answered_pending_iff:
  "answer compute req tr k = Inr result \<Longrightarrow>
   pending (answer compute req tr k) \<longleftrightarrow> \<not> is_done (answer compute req tr k)"
  by (simp add: pending_def is_done_def)

section \<open>C4: a loop leaves at the first terminal answer, and only there\<close>

text \<open>
  Claim C4. The claim ranges over sequences of polled statuses, so every status query
  is taken to be answered with an operation resource. Then each of the three loops
  (the zonal waiter, the global waiter, the regional loop of \<^verbatim>\<open>create_address\<close>)
  exits, whether by returning or by raising, exactly after the first query whose answer
  has status \<^verbatim>\<open>DONE\<close>: the trace at exit is the trace after \<open>n + 1\<close> queries, where
  query \<open>n\<close> is the first terminal one, so no exit happens on a status that is not
  terminal. The loop does exit if some answer is terminal, and if no answer ever is, the
  loop never returns (its value is \<open>None\<close>).
\<close>

theorem poll_loops_exit_at_first_DONE:
  assumes loop:
    "(req = ZoneOperationsGet project zone opname \<and>
        loop = wait_for_operation compute project zone opname) \<or>
     (req = GlobalOperationsGet project opname \<and>
        loop = wait_for_global_operation compute project opname) \<or>
     (req = RegionOperationsGet project region opname \<and>
        map_of operation ''name'' = Some opname \<and>
        loop = create_address_poll compute project region operation)"
    and answered: "\<forall>k. \<exists>result. answer compute req tr k = Inr result"
  shows "(\<forall>r tr'. loop tr = Some (r, tr') \<longrightarrow>
            (\<exists>n. (\<forall>k<n. \<not> is_done (answer compute req tr k)) \<and>
                 is_done (answer compute req tr n) \<and>
                 tr' = polls compute req tr (Suc n))) \<and>
         ((\<exists>n. is_done (answer compute req tr n)) \<longrightarrow> loop tr \<noteq> None) \<and>
         ((\<forall>k. \<not> is_done (answer compute req tr k)) \<longrightarrow> loop tr = None)"
proof -
  from loop obtain g where iff:
    "\<And>r tr'. loop tr = Some (r, tr') \<longleftrightarrow>
         (\<exists>n. (\<forall>k<n. pending (answer compute req tr k)) \<and>
              \<not> pending (answer compute req tr n) \<and>
              r = stop_result g (answer compute req tr n) \<and>
              tr' = polls compute req tr (Suc n))"
  proof (elim disjE conjE)
    assume "req = ZoneOperationsGet project zone opname"
      "loop = wait_for_operation compute project zone opname"
    then show ?thesis
      using that [of raise_on_error] by (simp only: wait_for_operation_Some_iff)
  next
    assume "req = GlobalOperationsGet project opname"
      "loop = wait_for_global_operation compute project opname"
    then show ?thesis
      using that [of raise_on_error] by (simp only: wait_for_global_operation_Some_iff)
  next
    assume "req = RegionOperationsGet project region opname"
      "map_of operation ''name'' = Some opname"
      "loop = create_address_poll compute project region operation"
    then show ?thesis
      using that [of ignore_error] by (simp only: create_address_poll_Some_iff)
  qed
  have pd: "pending (answer compute req tr k) \<longleftrightarrow> \<not> is_done (answer compute req tr k)" for k
    using answered [rule_format, of k] answered_pending_iff by blast
  have 1: "\<forall>r tr'. loop tr = Some (r, tr') \<longrightarrow>
            (\<exists>n. (\<forall>k<n. \<not> is_done (answer compute req tr k)) \<and>
                 is_done (answer compute req tr n) \<and>
                 tr' = polls compute req tr (Suc n))"
    unfolding iff pd by blast
  have 2: "(\<exists>n. is_done (answer compute req tr n)) \<longrightarrow> loop tr \<noteq> None"
  proof
    assume "\<exists>n. is_done (answer compute req tr n)"
    then obtain m where "\<not> pending (answer compute req tr m)" using pd by blast
    then obtain n where "\<forall>k<n. pending (answer compute req tr k)"
        "\<not> pending (answer compute req tr n)"
      using first_stop by blast
    then have "loop tr =
        Some (stop_result g (answer compute req tr n), polls compute req tr (Suc n))"
      unfolding iff by blast
    then show "loop tr \<noteq> None" by simp
  qed
  have 3: "(\<forall>k. \<not> is_done (answer compute req tr k)) \<longrightarrow> loop tr = None"
  proof
    assume "\<forall>k. \<not> is_done (answer compute req tr k)"
    then have "\<forall>k. pending (answer compute req tr k)" using pd by blast
    with iff show "loop tr = None" by (rule Some_iff_None)
  qed
  from 1 2 3 show ?thesis by blast
qed

theorem poll_loops_exit_at_first_DONE_witness:
  "wait_for_operation (running_then_done 3) ''p'' ''z'' (JStr ''op'') [] \<noteq> None \<and>
   (\<exists>n. (\<forall>k<n. \<not> is_done
              (answer (running_then_done 3) (ZoneOperationsGet ''p'' ''z'' (JStr ''op'')) [] k)) \<and>
        is_done (answer (running_then_done 3) (ZoneOperationsGet ''p'' ''z'' (JStr ''op'')) [] n) \<and>
        [(ZoneOperationsGet ''p'' ''z'' (JStr ''op''), Inr [(''status'', JStr ''RUNNING'')]),
         (ZoneOperationsGet ''p'' ''z'' (JStr ''op''), Inr [(''status'', JStr ''RUNNING'')]),
         (ZoneOperationsGet ''p'' ''z'' (JStr ''op''), Inr [(''status'', JStr ''RUNNING'')]),
         (ZoneOperationsGet ''p'' ''z'' (JStr ''op''), Inr [(''status'', JStr ''DONE'')])] =
        polls (running_then_done 3) (ZoneOperationsGet ''p'' ''z'' (JStr ''op'')) [] (Suc n))"
proof -
  let ?c = "running_then_done 3"
  let ?req = "ZoneOperationsGet ''p'' ''z'' (JStr ''op'')"
  have a: "\<forall>k. \<exists>result. answer ?c ?req [] k = Inr result"
    by (simp add: answer_def running_then_done_def)
  have d: "\<exists>n. is_done (answer ?c ?req [] n)"
  proof
    show "is_done (answer ?c ?req [] 3)"
      by (simp add: answer_def running_then_done_def is_done_def length_polls)
  qed
  have l: "(?req = ZoneOperationsGet ''p'' ''z'' (JStr ''op'') \<and>
        wait_for_operation ?c ''p'' ''z'' (JStr ''op'') =
        wait_for_operation ?c ''p'' ''z'' (JStr ''op'')) \<or>
     (?req = GlobalOperationsGet ''p'' (JStr ''op'') \<and>
        wait_for_operation ?c ''p'' ''z'' (JStr ''op'') =
        wait_for_global_operation ?c ''p'' (JStr ''op'')) \<or>
     (?req = RegionOperationsGet ''p'' ''r'' (JStr ''op'') \<and>
        map_of [] ''name'' = Some (JStr ''op'') \<and>
        wait_for_operation ?c ''p'' ''z'' (JStr ''op'') =
        create_address_poll ?c ''p'' ''r'' [])"
    by simp
  have e: "wait_for_operation ?c ''p'' ''z'' (JStr ''op'') [] =
     Some (Inr (),
       [(?req, Inr [(''status'', JStr ''RUNNING'')]),
        (?req, Inr [(''status'', JStr ''RUNNING'')]),
        (?req, Inr [(''status'', JStr ''RUNNING'')]),
        (?req, Inr [(''status'', JStr ''DONE'')])])"
    by (simp add: wait_for_operation_unfold running_then_done_def raise_on_error_def)
  show ?thesis
    using poll_loops_exit_at_first_DONE [OF l a] d e by blast
qed

lemma polls_new_events:
  "\<exists>evs. polls compute req tr n = tr @ evs \<and> length evs = n \<and> (\<forall>ev\<in>set evs. fst ev = req)"
  by (auto simp: polls_eq_map)

lemma is_done_not_pending: "is_done resp \<Longrightarrow> \<not> pending resp"
  by (simp add: pending_def is_done_def split: sum.splits)

section \<open>C7: the number of status queries\<close>

text \<open>
  Claim C7. If the first \<open>n\<close> answers to the zonal waiter are pending (status
  \<^verbatim>\<open>RUNNING\<close>, or any status other than \<^verbatim>\<open>DONE\<close>) and the next answer is
  \<^verbatim>\<open>DONE\<close>, the waiter exits after exactly \<open>1 + n\<close> round-trips, each of them the status
  query of this operation, and it returns normally when that answer carries no error. With
  three \<^verbatim>\<open>RUNNING\<close> answers this is four queries, which is the witness.
\<close>

theorem wait_for_operation_query_count:
  assumes before: "\<forall>k<n. pending (answer compute (ZoneOperationsGet project zone operation) tr k)"
    and at_n: "answer compute (ZoneOperationsGet project zone operation) tr n = Inr result"
    and terminal: "map_of result ''status'' = Some (JStr ''DONE'')"
  shows "\<exists>evs. wait_for_operation compute project zone operation tr =
                 Some (raise_on_error result, tr @ evs) \<and>
               length evs = 1 + n \<and>
               (\<forall>ev\<in>set evs. fst ev = ZoneOperationsGet project zone operation) \<and>
               (map_of result ''error'' = None \<longrightarrow> raise_on_error result = Inr ())"
proof -
  let ?req = "ZoneOperationsGet project zone operation"
  from at_n terminal have stop: "\<not> pending (answer compute ?req tr n)"
    by (simp add: pending_def)
  from at_n have res: "stop_result raise_on_error (answer compute ?req tr n) = raise_on_error result"
    by (simp add: stop_result_def)
  have "wait_for_operation compute project zone operation tr =
        Some (raise_on_error result, polls compute ?req tr (Suc n))"
    unfolding wait_for_operation_Some_iff using before stop res by metis
  moreover obtain evs where "polls compute ?req tr (Suc n) = tr @ evs" "length evs = Suc n"
      "\<forall>ev\<in>set evs. fst ev = ?req"
    using polls_new_events [of compute ?req tr "Suc n"] by blast
  ultimately show ?thesis
    by (auto simp: raise_on_error_def)
qed

theorem wait_for_operation_query_count_witness:
  "\<exists>evs. wait_for_operation (running_then_done 3) ''p'' ''z'' (JStr ''op'') [] =
            Some (Inr (), evs) \<and>
         length evs = 4 \<and>
         (\<forall>ev\<in>set evs. fst ev = ZoneOperationsGet ''p'' ''z'' (JStr ''op''))"
proof -
  let ?c = "running_then_done 3"
  let ?req = "ZoneOperationsGet ''p'' ''z'' (JStr ''op'')"
  have b: "\<forall>k<3. pending (answer ?c ?req [] k)"
    by (simp add: answer_def running_then_done_def pending_def length_polls)
  have a: "answer ?c ?req [] 3 = Inr [(''status'', JStr ''DONE'')]"
    by (simp add: answer_def running_then_done_def length_polls)
  have t: "map_of [(''status'', JStr ''DONE'')] ''status'' = Some (JStr ''DONE'')"
    by simp
  have e: "map_of [(''status'', JStr ''DONE'')] ''error'' = None"
    by simp
  show ?thesis
    using wait_for_operation_query_count [OF b a t] e by auto
qed

section \<open>C9: a terminal operation without an error payload\<close>

text \<open>
  Claim C9. For the zonal and the global waiter: if the first answer with status
  \<^verbatim>\<open>DONE\<close> has no \<^verbatim>\<open>'error'\<close> key, the call returns normally (\<open>Inr ()\<close>, no
  exception), right after that query.
\<close>

theorem waiters_return_normally:
  assumes loop:
    "(req = ZoneOperationsGet project zone opname \<and>
        wait = wait_for_operation compute project zone opname) \<or>
     (req = GlobalOperationsGet project opname \<and>
        wait = wait_for_global_operation compute project opname)"
    and before: "\<forall>k<n. pending (answer compute req tr k)"
    and at_n: "answer compute req tr n = Inr result"
    and terminal: "map_of result ''status'' = Some (JStr ''DONE'')"
    and no_error: "map_of result ''error'' = None"
  shows "wait tr = Some (Inr (), polls compute req tr (Suc n))"
proof -
  from at_n terminal have stop: "\<not> pending (answer compute req tr n)"
    by (simp add: pending_def)
  from at_n no_error have res: "stop_result raise_on_error (answer compute req tr n) = Inr ()"
    by (simp add: stop_result_def raise_on_error_def)
  from loop show ?thesis
  proof (elim disjE conjE)
    assume "req = ZoneOperationsGet project zone opname"
      "wait = wait_for_operation compute project zone opname"
    with before stop res show ?thesis
      by (simp add: wait_for_operation_Some_iff) (rule exI [of _ n], simp)
  next
    assume "req = GlobalOperationsGet project opname"
      "wait = wait_for_global_operation compute project opname"
    with before stop res show ?thesis
      by (simp add: wait_for_global_operation_Some_iff) (rule exI [of _ n], simp)
  qed
qed

theorem waiters_return_normally_witness:
  "wait_for_global_operation (running_then_done 2) ''p'' (JStr ''op'') [] =
     Some (Inr (),
       [(GlobalOperationsGet ''p'' (JStr ''op''), Inr [(''status'', JStr ''RUNNING'')]),
        (GlobalOperationsGet ''p'' (JStr ''op''), Inr [(''status'', JStr ''RUNNING'')]),
        (GlobalOperationsGet ''p'' (JStr ''op''), Inr [(''status'', JStr ''DONE'')])])"
proof -
  let ?c = "running_then_done 2"
  let ?req = "GlobalOperationsGet ''p'' (JStr ''op'')"
  have l: "(?req = ZoneOperationsGet ''p'' ''z'' (JStr ''op'') \<and>
        wait_for_global_operation ?c ''p'' (JStr ''op'') =
        wait_for_operation ?c ''p'' ''z'' (JStr ''op'')) \<or>
     (?req = GlobalOperationsGet ''p'' (JStr ''op'') \<and>
        wait_for_global_operation ?c ''p'' (JStr ''op'') =
        wait_for_global_operation ?c ''p'' (JStr ''op''))"
    by simp
  have b: "\<forall>k<2. pending (answer ?c ?req [] k)"
    by (simp add: answer_def running_then_done_def pending_def length_polls)
  have a: "answer ?c ?req [] 2 = Inr [(''status'', JStr ''DONE'')]"
    by (simp add: answer_def running_then_done_def length_polls)
  have t: "map_of [(''status'', JStr ''DONE'')] ''status'' = Some (JStr ''DONE'')"
    by simp
  have e: "map_of [(''status'', JStr ''DONE'')] ''error'' = None"
    by simp
  have p: "polls ?c ?req [] (Suc 2) =
       [(?req, Inr [(''status'', JStr ''RUNNING'')]),
        (?req, Inr [(''status'', JStr ''RUNNING'')]),
        (?req, Inr [(''status'', JStr ''DONE'')])]"
    by (simp add: execute_def running_then_done_def numeral_2_eq_2)
  show ?thesis
    using waiters_return_normally [OF l b a t e] p by simp
qed

lemma not_pending_Inr:
  "\<not> pending (Inr result) \<Longrightarrow> map_of result ''status'' = Some (JStr ''DONE'')"
  by (simp add: pending_def)

lemma polls_Suc_neq_start: "polls compute req tr (Suc n) \<noteq> tr"
proof
  assume "polls compute req tr (Suc n) = tr"
  then have "length (polls compute req tr (Suc n)) = length tr" by simp
  then show False by (simp only: length_polls)
qed

lemma exception_from_stop_result:
  assumes "g = raise_on_error \<or> g = ignore_error"
    and "stop_result g resp = Inl (Exception err)"
  shows "\<exists>result. resp = Inr result \<and> map_of result ''error'' = Some err"
  using assms
  by (cases resp)
     (auto simp: stop_result_def raise_on_error_def ignore_error_def split: option.splits)

section \<open>C10: an error payload on a pending answer\<close>

text \<open>
  Claim C10. For each of the three poll loops (the zonal waiter, the global waiter and
  the regional loop of \<^verbatim>\<open>create_address\<close>): an answer whose status is not \<^verbatim>\<open>DONE\<close>
  and which carries an \<^verbatim>\<open>'error'\<close> entry does not end the loop; the loop goes on
  exactly as it does from the trace extended by that answer, so it sends the next query,
  and it does not exit at that answer. And when a loop raises \<^verbatim>\<open>Exception(err)\<close>, it
  does so at the first answer with status \<^verbatim>\<open>DONE\<close>, and \<open>err\<close> is the \<^verbatim>\<open>'error'\<close>
  entry of that answer.
\<close>

theorem non_terminal_error_is_ignored:
  assumes loop:
    "(req = ZoneOperationsGet project zone opname \<and>
        loop = wait_for_operation compute project zone opname) \<or>
     (req = GlobalOperationsGet project opname \<and>
        loop = wait_for_global_operation compute project opname) \<or>
     (req = RegionOperationsGet project region opname \<and>
        map_of operation ''name'' = Some opname \<and>
        loop = create_address_poll compute project region operation)"
  shows "(\<forall>result err.
            compute tr req = Inr result \<and>
            map_of result ''status'' \<noteq> Some (JStr ''DONE'') \<and>
            map_of result ''error'' = Some err \<longrightarrow>
              loop tr = loop (tr @ [(req, Inr result)]) \<and>
              (\<forall>r. loop tr \<noteq> Some (r, tr @ [(req, Inr result)]))) \<and>
         (\<forall>err tr'.
            loop tr = Some (Inl (Exception err), tr') \<longrightarrow>
              (\<exists>n result.
                 (\<forall>k<n. pending (answer compute req tr k)) \<and>
                 answer compute req tr n = Inr result \<and>
                 map_of result ''status'' = Some (JStr ''DONE'') \<and>
                 map_of result ''error'' = Some err \<and>
                 tr' = polls compute req tr (Suc n)))"
proof -
  from loop obtain g where g: "g = raise_on_error \<or> g = ignore_error"
    and iff:
    "\<And>t r tr'. loop t = Some (r, tr') \<longleftrightarrow>
         (\<exists>n. (\<forall>k<n. pending (answer compute req t k)) \<and>
              \<not> pending (answer compute req t n) \<and>
              r = stop_result g (answer compute req t n) \<and>
              tr' = polls compute req t (Suc n))"
  proof (elim disjE conjE)
    assume "req = ZoneOperationsGet project zone opname"
      "loop = wait_for_operation compute project zone opname"
    then show ?thesis
      using that [of raise_on_error] by (simp only: wait_for_operation_Some_iff) simp
  next
    assume "req = GlobalOperationsGet project opname"
      "loop = wait_for_global_operation compute project opname"
    then show ?thesis
      using that [of raise_on_error] by (simp only: wait_for_global_operation_Some_iff) simp
  next
    assume "req = RegionOperationsGet project region opname"
      "map_of operation ''name'' = Some opname"
      "loop = create_address_poll compute project region operation"
    then show ?thesis
      using that [of ignore_error] by (simp only: create_address_poll_Some_iff) simp
  qed
  from loop have step:
    "\<And>t. pending (compute t req) \<Longrightarrow> loop t = loop (t @ [(req, compute t req)])"
    using wait_for_operation_pending wait_for_global_operation_pending
      create_address_poll_pending
    by (elim disjE conjE) simp_all
  have 1: "loop tr = loop (tr @ [(req, Inr result)]) \<and>
           (\<forall>r. loop tr \<noteq> Some (r, tr @ [(req, Inr result)]))"
    if c: "compute tr req = Inr result"
      and s: "map_of result ''status'' \<noteq> Some (JStr ''DONE'')" for result
  proof -
    let ?t = "tr @ [(req, Inr result)]"
    from c s have "pending (compute tr req)" by (simp add: pending_def)
    then have eq: "loop tr = loop ?t" using step [of tr] c by simp
    have "loop ?t \<noteq> Some (r, ?t)" for r
      unfolding iff using polls_Suc_neq_start [of compute req ?t] by metis
    with eq show ?thesis by simp
  qed
  have 2: "\<exists>n result.
                 (\<forall>k<n. pending (answer compute req tr k)) \<and>
                 answer compute req tr n = Inr result \<and>
                 map_of result ''status'' = Some (JStr ''DONE'') \<and>
                 map_of result ''error'' = Some err \<and>
                 tr' = polls compute req tr (Suc n)"
    if w: "loop tr = Some (Inl (Exception err), tr')" for err tr'
  proof -
    from w obtain n where n: "\<forall>k<n. pending (answer compute req tr k)"
        "\<not> pending (answer compute req tr n)"
        "stop_result g (answer compute req tr n) = Inl (Exception err)"
        "tr' = polls compute req tr (Suc n)"
      unfolding iff by metis
    from g n(3) obtain result where r: "answer compute req tr n = Inr result"
        "map_of result ''error'' = Some err"
      using exception_from_stop_result by blast
    with n(2) have "map_of result ''status'' = Some (JStr ''DONE'')"
      using not_pending_Inr by simp
    with n r show ?thesis by blast
  qed
  from 1 2 show ?thesis by blast
qed

theorem non_terminal_error_is_ignored_witness:
  "wait_for_operation early_error_client ''p'' ''z'' (JStr ''op'') [] =
   wait_for_operation early_error_client ''p'' ''z'' (JStr ''op'')
     [(ZoneOperationsGet ''p'' ''z'' (JStr ''op''),
       Inr [(''status'', JStr ''RUNNING''),
            (''error'', JDict [(''message'', JStr ''transient'')])])] \<and>
   wait_for_operation early_error_client ''p'' ''z'' (JStr ''op'') [] =
   Some (Inr (),
     [(ZoneOperationsGet ''p'' ''z'' (JStr ''op''),
       Inr [(''status'', JStr ''RUNNING''),
            (''error'', JDict [(''message'', JStr ''transient'')])]),
      (ZoneOperationsGet ''p'' ''z'' (JStr ''op''), Inr [(''status'', JStr ''DONE'')])]) \<and>
   create_address_poll early_error_client ''p'' ''r'' [(''name'', JStr ''op'')] [] =
   create_address_poll early_error_client ''p'' ''r'' [(''name'', JStr ''op'')]
     [(RegionOperationsGet ''p'' ''r'' (JStr ''op''),
       Inr [(''status'', JStr ''RUNNING''),
            (''error'', JDict [(''message'', JStr ''transient'')])])] \<and>
   create_address_poll early_error_client ''p'' ''r'' [(''name'', JStr ''op'')] [] =
   Some (Inr (),
     [(RegionOperationsGet ''p'' ''r'' (JStr ''op''),
       Inr [(''status'', JStr ''RUNNING''),
            (''error'', JDict [(''message'', JStr ''transient'')])]),
      (RegionOperationsGet ''p'' ''r'' (JStr ''op''), Inr [(''status'', JStr ''DONE'')])])"
proof -
  let ?c = early_error_client
  let ?zreq = "ZoneOperationsGet ''p'' ''z'' (JStr ''op'')"
  let ?rreq = "RegionOperationsGet ''p'' ''r'' (JStr ''op'')"
  let ?res = "[(''status'', JStr ''RUNNING''),
               (''error'', JDict [(''message'', JStr ''transient'')])]"
  have lz: "(?zreq = ZoneOperationsGet ''p'' ''z'' (JStr ''op'') \<and>
        wait_for_operation ?c ''p'' ''z'' (JStr ''op'') =
        wait_for_operation ?c ''p'' ''z'' (JStr ''op'')) \<or>
     (?zreq = GlobalOperationsGet ''p'' (JStr ''op'') \<and>
        wait_for_operation ?c ''p'' ''z'' (JStr ''op'') =
        wait_for_global_operation ?c ''p'' (JStr ''op'')) \<or>
     (?zreq = RegionOperationsGet ''p'' ''r'' (JStr ''op'') \<and>
        map_of [(''name'', JStr ''op'')] ''name'' = Some (JStr ''op'') \<and>
        wait_for_operation ?c ''p'' ''z'' (JStr ''op'') =
        create_address_poll ?c ''p'' ''r'' [(''name'', JStr ''op'')])"
    by simp
  have lr: "(?rreq = ZoneOperationsGet ''p'' ''z'' (JStr ''op'') \<and>
        create_address_poll ?c ''p'' ''r'' [(''name'', JStr ''op'')] =
        wait_for_operation ?c ''p'' ''z'' (JStr ''op'')) \<or>
     (?rreq = GlobalOperationsGet ''p'' (JStr ''op'') \<and>
        create_address_poll ?c ''p'' ''r'' [(''name'', JStr ''op'')] =
        wait_for_global_operation ?c ''p'' (JStr ''op'')) \<or>
     (?rreq = RegionOperationsGet ''p'' ''r'' (JStr ''op'') \<and>
        map_of [(''name'', JStr ''op'')] ''name'' = Some (JStr ''op'') \<and>
        create_address_poll ?c ''p'' ''r'' [(''name'', JStr ''op'')] =
        create_address_poll ?c ''p'' ''r'' [(''name'', JStr ''op'')])"
    by simp
  have hz: "?c [] ?zreq = Inr ?res \<and>
      map_of ?res ''status'' \<noteq> Some (JStr ''DONE'') \<and>
      map_of ?res ''error'' = Some (JDict [(''message'', JStr ''transient'')])"
    by (simp add: early_error_client_def)
  have hr: "?c [] ?rreq = Inr ?res \<and>
      map_of ?res ''status'' \<noteq> Some (JStr ''DONE'') \<and>
      map_of ?res ''error'' = Some (JDict [(''message'', JStr ''transient'')])"
    by (simp add: early_error_client_def)
  have ez: "wait_for_operation ?c ''p'' ''z'' (JStr ''op'') [] =
     Some (Inr (), [(?zreq, Inr ?res), (?zreq, Inr [(''status'', JStr ''DONE'')])])"
    by (simp add: wait_for_operation_unfold early_error_client_def raise_on_error_def)
  have er: "create_address_poll ?c ''p'' ''r'' [(''name'', JStr ''op'')] [] =
     Some (Inr (), [(?rreq, Inr ?res), (?rreq, Inr [(''status'', JStr ''DONE'')])])"
    by (simp add: create_address_poll_unfold early_error_client_def)
  from non_terminal_error_is_ignored [OF lz, of "[]"] hz
  have 1: "wait_for_operation ?c ''p'' ''z'' (JStr ''op'') [] =
        wait_for_operation ?c ''p'' ''z'' (JStr ''op'') ([] @ [(?zreq, Inr ?res)])"
    by blast
  from non_terminal_error_is_ignored [OF lr, of "[]"] hr
  have 2: "create_address_poll ?c ''p'' ''r'' [(''name'', JStr ''op'')] [] =
        create_address_poll ?c ''p'' ''r'' [(''name'', JStr ''op'')] ([] @ [(?rreq, Inr ?res)])"
    by blast
  from 1 2 ez er show ?thesis by simp
qed

section \<open>What each provisioner adds to the trace\<close>

lemma natIP_config:
  "natIP (config zone instance_name static_ip machine_type source_image disk_size_gb) =
   Some static_ip"
  by (simp add: natIP_def config_def)

lemma polls_same_request:
  "\<exists>evs. polls compute req tr (Suc n) = tr @ evs @ [(req, answer compute req tr n)] \<and>
         (\<forall>ev\<in>set evs. fst ev = req)"
proof -
  obtain evs where "polls compute req tr n = tr @ evs" "\<forall>ev\<in>set evs. fst ev = req"
    using polls_new_events [of compute req tr n] by blast
  then show ?thesis by (simp add: polls_Suc_append del: polls.simps)
qed

lemma create_address_success:
  assumes "create_address compute project region address_name tr = Some (Inr ip, tr')"
  shows "\<exists>operation tr2 address.
           compute tr (AddressesInsert project region (JDict [(''name'', JStr address_name)]))
             = Inr operation \<and>
           create_address_poll compute project region operation
             (tr @ [(AddressesInsert project region (JDict [(''name'', JStr address_name)]),
                     Inr operation)]) = Some (Inr (), tr2) \<and>
           compute tr2 (AddressesGet project region address_name) = Inr address \<and>
           map_of address ''address'' = Some ip \<and>
           tr' = tr2 @ [(AddressesGet project region address_name, Inr address)]"
proof -
  let ?ins = "AddressesInsert project region (JDict [(''name'', JStr address_name)])"
  let ?get = "AddressesGet project region address_name"
  from assms obtain operation where op: "compute tr ?ins = Inr operation"
    by (cases "compute tr ?ins") (simp_all add: create_address_def execute_def)
  let ?t1 = "tr @ [(?ins, Inr operation)]"
  from assms op obtain r2 tr2 where
    p: "create_address_poll compute project region operation ?t1 = Some (r2, tr2)"
    by (cases "create_address_poll compute project region operation ?t1")
       (auto simp: create_address_def execute_def)
  from assms op p have r2: "r2 = Inr ()"
    by (cases r2) (simp_all add: create_address_def execute_def)
  from assms op p r2 obtain address where a: "compute tr2 ?get = Inr address"
    by (cases "compute tr2 ?get") (simp_all add: create_address_def execute_def)
  from assms op p r2 a have "map_of address ''address'' = Some ip"
      "tr' = tr2 @ [(?get, Inr address)]"
    by (cases "map_of address ''address''"; simp add: create_address_def execute_def)+
  with op p r2 a show ?thesis by blast
qed

lemma create_address_poll_events:
  assumes "create_address_poll compute project region operation tr = Some (r, tr')"
  shows "\<exists>evs. tr' = tr @ evs \<and> (\<forall>ev\<in>set evs. component_of (fst ev) = Address)"
proof (cases "map_of operation ''name''")
  case None
  with assms have "tr' = tr" by (simp add: create_address_poll_KeyError)
  then show ?thesis by simp
next
  case (Some opname)
  from assms obtain n where
    "tr' = polls compute (RegionOperationsGet project region opname) tr (Suc n)"
    unfolding create_address_poll_Some_iff [OF Some] by blast
  then show ?thesis
    by (auto simp: polls_eq_map simp del: polls.simps)
qed

lemma create_address_events:
  assumes "create_address compute project region address_name tr = Some (r, tr')"
  shows "\<exists>evs. tr' = tr @ evs \<and> (\<forall>ev\<in>set evs. component_of (fst ev) = Address)"
proof -
  let ?ins = "AddressesInsert project region (JDict [(''name'', JStr address_name)])"
  let ?get = "AddressesGet project region address_name"
  show ?thesis
  proof (cases "compute tr ?ins")
    case (Inl msg)
    with assms have "tr' = tr @ [(?ins, Inl msg)]"
      by (simp add: create_address_def execute_def)
    then show ?thesis by simp
  next
    case (Inr operation)
    let ?t1 = "tr @ [(?ins, Inr operation)]"
    from assms Inr obtain r2 tr2 where
      p: "create_address_poll compute project region operation ?t1 = Some (r2, tr2)"
      by (cases "create_address_poll compute project region operation ?t1")
         (auto simp: create_address_def execute_def)
    then obtain evs where evs: "tr2 = ?t1 @ evs"
        "\<forall>ev\<in>set evs. component_of (fst ev) = Address"
      using create_address_poll_events by blast
    from assms Inr p have "tr' = tr2 \<or> tr' = tr2 @ [(?get, compute tr2 ?get)]"
      by (cases r2; cases "compute tr2 ?get")
         (auto simp: create_address_def execute_def split: option.splits)
    with evs show ?thesis by auto
  qed
qed


lemma wait_for_global_operation_events:
  assumes "wait_for_global_operation compute project operation tr = Some (r, tr')"
  shows "\<exists>evs. tr' = tr @ evs \<and> (\<forall>ev\<in>set evs. fst ev = GlobalOperationsGet project operation)"
proof -
  from assms obtain n where
    "tr' = polls compute (GlobalOperationsGet project operation) tr (Suc n)"
    unfolding wait_for_global_operation_Some_iff by blast
  then show ?thesis
    using polls_new_events [of compute "GlobalOperationsGet project operation" tr "Suc n"]
    by blast
qed

lemma wait_for_operation_events:
  assumes "wait_for_operation compute project zone operation tr = Some (r, tr')"
  shows "\<exists>evs. tr' = tr @ evs \<and>
               (\<forall>ev\<in>set evs. fst ev = ZoneOperationsGet project zone operation)"
proof -
  from assms obtain n where
    "tr' = polls compute (ZoneOperationsGet project zone operation) tr (Suc n)"
    unfolding wait_for_operation_Some_iff by blast
  then show ?thesis
    using polls_new_events [of compute "ZoneOperationsGet project zone operation" tr "Suc n"]
    by blast
qed

lemma create_firewall_rule_Some:
  assumes "create_firewall_rule compute project firewall_name tr = Some (r, tr')"
  shows "\<exists>rest. tr' = tr @ (FirewallsInsert project (firewall_body firewall_name),
                            compute tr (FirewallsInsert project (firewall_body firewall_name)))
                          # rest \<and>
                (\<forall>ev\<in>set rest. \<exists>operation. fst ev = GlobalOperationsGet project operation)"
proof -
  let ?ins = "FirewallsInsert project (firewall_body firewall_name)"
  show ?thesis
  proof (cases "compute tr ?ins")
    case (Inl msg)
    with assms have "tr' = tr @ [(?ins, compute tr ?ins)]"
      by (simp add: create_firewall_rule_def execute_def)
    then show ?thesis by simp
  next
    case (Inr operation)
    let ?t1 = "tr @ [(?ins, Inr operation)]"
    show ?thesis
    proof (cases "map_of operation ''name''")
      case None
      with assms Inr have "tr' = tr @ [(?ins, compute tr ?ins)]"
        by (simp add: create_firewall_rule_def execute_def)
      then show ?thesis by simp
    next
      case (Some opname)
      with assms Inr have "wait_for_global_operation compute project opname ?t1 = Some (r, tr')"
        by (simp add: create_firewall_rule_def execute_def)
      then obtain evs where "tr' = ?t1 @ evs"
          "\<forall>ev\<in>set evs. fst ev = GlobalOperationsGet project opname"
        using wait_for_global_operation_events by blast
      with Inr show ?thesis by auto
    qed
  qed
qed

lemma create_instance_Some:
  assumes "create_instance compute project zone instance_name static_ip machine_type
             source_image disk_size_gb tr = Some (r, tr')"
  shows "\<exists>resp rest.
           tr' = tr @ (InstancesInsert project zone
                         (config zone instance_name static_ip machine_type source_image
                            disk_size_gb), resp) # rest \<and>
           (\<forall>ev\<in>set rest. \<exists>operation. fst ev = ZoneOperationsGet project zone operation)"
proof -
  let ?ins = "InstancesInsert project zone
                (config zone instance_name static_ip machine_type source_image disk_size_gb)"
  show ?thesis
  proof (cases "compute tr ?ins")
    case (Inl msg)
    with assms have "tr' = tr @ [(?ins, compute tr ?ins)]"
      by (simp add: create_instance_def execute_def)
    then show ?thesis by simp
  next
    case (Inr operation)
    let ?t1 = "tr @ [(?ins, Inr operation)]"
    show ?thesis
    proof (cases "map_of operation ''name''")
      case None
      with assms Inr have "tr' = tr @ [(?ins, compute tr ?ins)]"
        by (simp add: create_instance_def execute_def)
      then show ?thesis by simp
    next
      case (Some opname)
      with assms Inr have "wait_for_operation compute project zone opname ?t1 = Some (r, tr')"
        by (simp add: create_instance_def execute_def)
      then obtain evs where "tr' = ?t1 @ evs"
          "\<forall>ev\<in>set evs. fst ev = ZoneOperationsGet project zone opname"
        using wait_for_operation_events by blast
      with Inr show ?thesis by auto
    qed
  qed
qed

lemma create_firewall_rule_events:
  assumes "create_firewall_rule compute project firewall_name tr = Some (r, tr')"
  shows "\<exists>evs. tr' = tr @ evs \<and> (\<forall>ev\<in>set evs. component_of (fst ev) = Firewall)"
proof -
  from assms obtain rest where
    "tr' = tr @ (FirewallsInsert project (firewall_body firewall_name),
                 compute tr (FirewallsInsert project (firewall_body firewall_name))) # rest"
    "\<forall>ev\<in>set rest. \<exists>operation. fst ev = GlobalOperationsGet project operation"
    using create_firewall_rule_Some by blast
  then show ?thesis by fastforce
qed

lemma create_instance_events:
  assumes "create_instance compute project zone instance_name static_ip machine_type
             source_image disk_size_gb tr = Some (r, tr')"
  shows "\<exists>evs. tr' = tr @ evs \<and> (\<forall>ev\<in>set evs. component_of (fst ev) = Instance)"
proof -
  from assms obtain resp rest where
    "tr' = tr @ (InstancesInsert project zone
                   (config zone instance_name static_ip machine_type source_image
                      disk_size_gb), resp) # rest"
    "\<forall>ev\<in>set rest. \<exists>operation. fst ev = ZoneOperationsGet project zone operation"
    using create_instance_Some by blast
  then show ?thesis by fastforce
qed

lemma waiters_raise_payload:
  assumes loop:
    "(req = ZoneOperationsGet project zone opname \<and>
        wait = wait_for_operation compute project zone opname) \<or>
     (req = GlobalOperationsGet project opname \<and>
        wait = wait_for_global_operation compute project opname)"
    and before: "\<forall>k<n. pending (answer compute req tr k)"
    and at_n: "answer compute req tr n = Inr result"
    and terminal: "map_of result ''status'' = Some (JStr ''DONE'')"
    and error: "map_of result ''error'' = Some err"
  shows "wait tr = Some (Inl (Exception err), polls compute req tr (Suc n))"
proof -
  from at_n terminal have stop: "\<not> pending (answer compute req tr n)"
    by (simp add: pending_def)
  from at_n error
  have res: "stop_result raise_on_error (answer compute req tr n) = Inl (Exception err)"
    by (simp add: stop_result_def raise_on_error_def)
  from loop show ?thesis
  proof (elim disjE conjE)
    assume "req = ZoneOperationsGet project zone opname"
      "wait = wait_for_operation compute project zone opname"
    with before stop res show ?thesis
      by (simp add: wait_for_operation_Some_iff) (rule exI [of _ n], simp)
  next
    assume "req = GlobalOperationsGet project opname"
      "wait = wait_for_global_operation compute project opname"
    with before stop res show ?thesis
      by (simp add: wait_for_global_operation_Some_iff) (rule exI [of _ n], simp)
  qed
qed

lemma create_address_poll_never_raises_payload:
  assumes "create_address_poll compute project region operation tr = Some (r, tr')"
  shows "r \<noteq> Inl (Exception err)"
proof (cases "map_of operation ''name''")
  case None
  with assms show ?thesis by (auto simp: create_address_poll_KeyError)
next
  case (Some opname)
  from assms obtain n where
    "r = stop_result ignore_error
           (answer compute (RegionOperationsGet project region opname) tr n)"
    unfolding create_address_poll_Some_iff [OF Some] by blast
  then show ?thesis
    by (simp add: stop_result_def ignore_error_def split: sum.splits)
qed

lemma create_address_poll_success:
  assumes "create_address_poll compute project region operation tr = Some (Inr (), tr')"
  shows "\<exists>opname n result.
           map_of operation ''name'' = Some opname \<and>
           (\<forall>k<n. pending (answer compute (RegionOperationsGet project region opname) tr k)) \<and>
           answer compute (RegionOperationsGet project region opname) tr n = Inr result \<and>
           map_of result ''status'' = Some (JStr ''DONE'') \<and>
           tr' = polls compute (RegionOperationsGet project region opname) tr (Suc n)"
proof (cases "map_of operation ''name''")
  case None
  with assms show ?thesis by (simp add: create_address_poll_KeyError)
next
  case (Some opname)
  let ?req = "RegionOperationsGet project region opname"
  from assms obtain n where n: "\<forall>k<n. pending (answer compute ?req tr k)"
      "\<not> pending (answer compute ?req tr n)"
      "Inr () = stop_result ignore_error (answer compute ?req tr n)"
      "tr' = polls compute ?req tr (Suc n)"
    unfolding create_address_poll_Some_iff [OF Some] by blast
  from n(3) obtain result where r: "answer compute ?req tr n = Inr result"
    by (cases "answer compute ?req tr n") (simp_all add: stop_result_def)
  with n(2) have "map_of result ''status'' = Some (JStr ''DONE'')"
    using not_pending_Inr by simp
  with Some n r show ?thesis by blast
qed

lemma create_address_unfold:
  "create_address compute project region address_name tr =
     (case compute tr (AddressesInsert project region (JDict [(''name'', JStr address_name)])) of
        Inl msg \<Rightarrow>
          Some (Inl (HttpError msg),
                tr @ [(AddressesInsert project region (JDict [(''name'', JStr address_name)]),
                       Inl msg)])
      | Inr operation \<Rightarrow>
          (case create_address_poll compute project region operation
                  (tr @ [(AddressesInsert project region
                            (JDict [(''name'', JStr address_name)]), Inr operation)]) of
             None \<Rightarrow> None
           | Some (Inl e, tr2) \<Rightarrow> Some (Inl e, tr2)
           | Some (Inr u, tr2) \<Rightarrow>
               (case compute tr2 (AddressesGet project region address_name) of
                  Inl msg \<Rightarrow>
                    Some (Inl (HttpError msg),
                          tr2 @ [(AddressesGet project region address_name, Inl msg)])
                | Inr address \<Rightarrow>
                    (case map_of address ''address'' of
                       None \<Rightarrow>
                         Some (Inl (KeyError ''address''),
                               tr2 @ [(AddressesGet project region address_name, Inr address)])
                     | Some ip \<Rightarrow>
                         Some (Inr ip,
                               tr2 @ [(AddressesGet project region address_name,
                                       Inr address)])))))"
  by (simp add: create_address_def execute_def split: sum.splits option.splits prod.splits)

lemma create_firewall_rule_unfold:
  "create_firewall_rule compute project firewall_name tr =
     (case compute tr (FirewallsInsert project (firewall_body firewall_name)) of
        Inl msg \<Rightarrow>
          Some (Inl (HttpError msg),
                tr @ [(FirewallsInsert project (firewall_body firewall_name), Inl msg)])
      | Inr operation \<Rightarrow>
          (case map_of operation ''name'' of
             None \<Rightarrow>
               Some (Inl (KeyError ''name''),
                     tr @ [(FirewallsInsert project (firewall_body firewall_name),
                            Inr operation)])
           | Some opname \<Rightarrow>
               wait_for_global_operation compute project opname
                 (tr @ [(FirewallsInsert project (firewall_body firewall_name),
                         Inr operation)])))"
  by (simp add: create_firewall_rule_def execute_def split: sum.splits option.splits)

lemma create_instance_unfold:
  "create_instance compute project zone instance_name static_ip machine_type source_image
       disk_size_gb tr =
     (case compute tr
             (InstancesInsert project zone
                (config zone instance_name static_ip machine_type source_image disk_size_gb)) of
        Inl msg \<Rightarrow>
          Some (Inl (HttpError msg),
                tr @ [(InstancesInsert project zone
                         (config zone instance_name static_ip machine_type source_image
                            disk_size_gb), Inl msg)])
      | Inr operation \<Rightarrow>
          (case map_of operation ''name'' of
             None \<Rightarrow>
               Some (Inl (KeyError ''name''),
                     tr @ [(InstancesInsert project zone
                              (config zone instance_name static_ip machine_type source_image
                                 disk_size_gb), Inr operation)])
           | Some opname \<Rightarrow>
               wait_for_operation compute project zone opname
                 (tr @ [(InstancesInsert project zone
                           (config zone instance_name static_ip machine_type source_image
                              disk_size_gb), Inr operation)])))"
  by (simp add: create_instance_def execute_def split: sum.splits option.splits)

lemma create_address_happy:
  "create_address (mock_client done_ok done_ok done_ok)
     ''cloud-assignment-450118'' ''us-central1'' ''vm-static-ip'' [] =
   Some (Inr (JStr ''34.1.2.3''),
     [(AddressesInsert ''cloud-assignment-450118'' ''us-central1''
         (JDict [(''name'', JStr ''vm-static-ip'')]),
       Inr [(''name'', JStr ''operation-address'')]),
      (RegionOperationsGet ''cloud-assignment-450118'' ''us-central1''
         (JStr ''operation-address''),
       Inr [(''status'', JStr ''DONE'')]),
      (AddressesGet ''cloud-assignment-450118'' ''us-central1'' ''vm-static-ip'',
       Inr [(''address'', JStr ''34.1.2.3'')])])"
  by (simp add: create_address_unfold create_address_poll_unfold mock_client_def done_ok_def)

lemma create_address_poll_done_at:
  assumes name: "map_of operation ''name'' = Some opname"
    and before: "\<forall>k<n. pending (answer compute (RegionOperationsGet project region opname) tr k)"
    and at_n: "answer compute (RegionOperationsGet project region opname) tr n = Inr result"
    and terminal: "map_of result ''status'' = Some (JStr ''DONE'')"
  shows "create_address_poll compute project region operation tr =
         Some (Inr (), polls compute (RegionOperationsGet project region opname) tr (Suc n))"
proof -
  let ?req = "RegionOperationsGet project region opname"
  from at_n terminal have stop: "\<not> pending (answer compute ?req tr n)"
    by (simp add: pending_def)
  from at_n have res: "stop_result ignore_error (answer compute ?req tr n) = Inr ()"
    by (simp add: stop_result_def ignore_error_def)
  from before stop res show ?thesis
    by (simp add: create_address_poll_Some_iff [OF name]) (rule exI [of _ n], simp)
qed

section \<open>C6: the value that the address provisioner returns\<close>

text \<open>
  Claim C6. \<^verbatim>\<open>create_address\<close> returns the value \<open>ip\<close> exactly when the allocation
  request is answered with an operation that has a name, the status queries of that
  operation are answered pending \<open>n\<close> times and then \<^verbatim>\<open>DONE\<close>, and the fetch of the
  address by its name, made after that answer, is answered with a resource whose
  \<^verbatim>\<open>'address'\<close> field is \<open>ip\<close>. Both directions hold: a returned value is the field of
  the resource fetched after the terminal answer, and that field is what the call
  returns. The round-trips of the call are the request, the \<open>n + 1\<close> queries and the
  fetch, in this order, and no fetch of an address comes before the terminal answer.
\<close>

theorem create_address_returns_fetched_value:
  "create_address compute project region address_name tr = Some (Inr ip, tr') \<longleftrightarrow>
   (\<exists>operation opname n result address.
      compute tr (AddressesInsert project region (JDict [(''name'', JStr address_name)]))
        = Inr operation \<and>
      map_of operation ''name'' = Some opname \<and>
      (\<forall>k<n. pending
         (answer compute (RegionOperationsGet project region opname)
            (tr @ [(AddressesInsert project region (JDict [(''name'', JStr address_name)]),
                    Inr operation)]) k)) \<and>
      answer compute (RegionOperationsGet project region opname)
        (tr @ [(AddressesInsert project region (JDict [(''name'', JStr address_name)]),
                Inr operation)]) n = Inr result \<and>
      map_of result ''status'' = Some (JStr ''DONE'') \<and>
      compute
        (polls compute (RegionOperationsGet project region opname)
           (tr @ [(AddressesInsert project region (JDict [(''name'', JStr address_name)]),
                   Inr operation)]) (Suc n))
        (AddressesGet project region address_name) = Inr address \<and>
      map_of address ''address'' = Some ip \<and>
      tr' = polls compute (RegionOperationsGet project region opname)
              (tr @ [(AddressesInsert project region (JDict [(''name'', JStr address_name)]),
                      Inr operation)]) (Suc n)
            @ [(AddressesGet project region address_name, Inr address)] \<and>
      (\<forall>ev\<in>set (butlast (drop (length tr) tr')). \<not> is_addresses_get (fst ev)))"
proof
  let ?ins = "AddressesInsert project region (JDict [(''name'', JStr address_name)])"
  let ?get = "AddressesGet project region address_name"
  assume ret: "create_address compute project region address_name tr = Some (Inr ip, tr')"
  from ret obtain operation tr2 address where
    op: "compute tr ?ins = Inr operation"
    and p: "create_address_poll compute project region operation (tr @ [(?ins, Inr operation)])
            = Some (Inr (), tr2)"
    and a: "compute tr2 ?get = Inr address" "map_of address ''address'' = Some ip"
      "tr' = tr2 @ [(?get, Inr address)]"
    using create_address_success by blast
  let ?t1 = "tr @ [(?ins, Inr operation)]"
  from p obtain opname n result where
    q: "map_of operation ''name'' = Some opname"
      "\<forall>k<n. pending (answer compute (RegionOperationsGet project region opname) ?t1 k)"
      "answer compute (RegionOperationsGet project region opname) ?t1 n = Inr result"
      "map_of result ''status'' = Some (JStr ''DONE'')"
      "tr2 = polls compute (RegionOperationsGet project region opname) ?t1 (Suc n)"
    using create_address_poll_success by blast
  obtain evs where evs: "tr2 = ?t1 @ evs"
      "\<forall>ev\<in>set evs. fst ev = RegionOperationsGet project region opname"
    using polls_new_events [of compute "RegionOperationsGet project region opname" ?t1 "Suc n"]
      q(5) by blast
  from evs(1) a(3) have "tr' = tr @ (((?ins, Inr operation) # evs) @ [(?get, Inr address)])"
    by simp
  then have "butlast (drop (length tr) tr') = (?ins, Inr operation) # evs"
    by (simp only: append_eq_conv_conj drop_append length_append butlast_snoc) simp
  with evs(2) have "\<forall>ev\<in>set (butlast (drop (length tr) tr')). \<not> is_addresses_get (fst ev)"
    by auto
  with op a q show "\<exists>operation opname n result address.
      compute tr ?ins = Inr operation \<and>
      map_of operation ''name'' = Some opname \<and>
      (\<forall>k<n. pending
         (answer compute (RegionOperationsGet project region opname)
            (tr @ [(?ins, Inr operation)]) k)) \<and>
      answer compute (RegionOperationsGet project region opname)
        (tr @ [(?ins, Inr operation)]) n = Inr result \<and>
      map_of result ''status'' = Some (JStr ''DONE'') \<and>
      compute
        (polls compute (RegionOperationsGet project region opname)
           (tr @ [(?ins, Inr operation)]) (Suc n)) ?get = Inr address \<and>
      map_of address ''address'' = Some ip \<and>
      tr' = polls compute (RegionOperationsGet project region opname)
              (tr @ [(?ins, Inr operation)]) (Suc n)
            @ [(?get, Inr address)] \<and>
      (\<forall>ev\<in>set (butlast (drop (length tr) tr')). \<not> is_addresses_get (fst ev))"
    by blast
next
  let ?ins = "AddressesInsert project region (JDict [(''name'', JStr address_name)])"
  let ?get = "AddressesGet project region address_name"
  assume "\<exists>operation opname n result address.
      compute tr ?ins = Inr operation \<and>
      map_of operation ''name'' = Some opname \<and>
      (\<forall>k<n. pending
         (answer compute (RegionOperationsGet project region opname)
            (tr @ [(?ins, Inr operation)]) k)) \<and>
      answer compute (RegionOperationsGet project region opname)
        (tr @ [(?ins, Inr operation)]) n = Inr result \<and>
      map_of result ''status'' = Some (JStr ''DONE'') \<and>
      compute
        (polls compute (RegionOperationsGet project region opname)
           (tr @ [(?ins, Inr operation)]) (Suc n)) ?get = Inr address \<and>
      map_of address ''address'' = Some ip \<and>
      tr' = polls compute (RegionOperationsGet project region opname)
              (tr @ [(?ins, Inr operation)]) (Suc n)
            @ [(?get, Inr address)] \<and>
      (\<forall>ev\<in>set (butlast (drop (length tr) tr')). \<not> is_addresses_get (fst ev))"
  then obtain operation opname n result address where
    op: "compute tr ?ins = Inr operation"
    and name: "map_of operation ''name'' = Some opname"
    and before: "\<forall>k<n. pending
         (answer compute (RegionOperationsGet project region opname)
            (tr @ [(?ins, Inr operation)]) k)"
    and at_n: "answer compute (RegionOperationsGet project region opname)
        (tr @ [(?ins, Inr operation)]) n = Inr result"
    and terminal: "map_of result ''status'' = Some (JStr ''DONE'')"
    and fetch: "compute
        (polls compute (RegionOperationsGet project region opname)
           (tr @ [(?ins, Inr operation)]) (Suc n)) ?get = Inr address"
    and addr_value: "map_of address ''address'' = Some ip"
    and shape: "tr' = polls compute (RegionOperationsGet project region opname)
              (tr @ [(?ins, Inr operation)]) (Suc n)
            @ [(?get, Inr address)]"
    by blast
  from name before at_n terminal
  have "create_address_poll compute project region operation (tr @ [(?ins, Inr operation)]) =
        Some (Inr (), polls compute (RegionOperationsGet project region opname)
                        (tr @ [(?ins, Inr operation)]) (Suc n))"
    by (rule create_address_poll_done_at)
  with op fetch addr_value shape
  show "create_address compute project region address_name tr = Some (Inr ip, tr')"
    by (simp add: create_address_unfold del: polls.simps)
qed

theorem create_address_returns_fetched_value_witness:
  "create_address (mock_client done_ok done_ok done_ok)
     ''cloud-assignment-450118'' ''us-central1'' ''vm-static-ip'' [] =
   Some (Inr (JStr ''34.1.2.3''),
     [(AddressesInsert ''cloud-assignment-450118'' ''us-central1''
         (JDict [(''name'', JStr ''vm-static-ip'')]),
       Inr [(''name'', JStr ''operation-address'')]),
      (RegionOperationsGet ''cloud-assignment-450118'' ''us-central1''
         (JStr ''operation-address''),
       Inr [(''status'', JStr ''DONE'')]),
      (AddressesGet ''cloud-assignment-450118'' ''us-central1'' ''vm-static-ip'',
       Inr [(''address'', JStr ''34.1.2.3'')])])"
  unfolding create_address_returns_fetched_value
  by (rule exI [of _ "[(''name'', JStr ''operation-address'')]"],
      rule exI [of _ "JStr ''operation-address''"],
      rule exI [of _ 0],
      rule exI [of _ "[(''status'', JStr ''DONE'')]"],
      rule exI [of _ "[(''address'', JStr ''34.1.2.3'')]"])
     (simp add: mock_client_def done_ok_def answer_def execute_def)

section \<open>C1: a terminal operation that carries an error payload\<close>

text \<open>
  Claim C1 says that all three wait paths raise with the payload of a terminal operation.
  The zonal and the global waiter do (\<open>waiters_raise_payload\<close>). The regional loop of
  \<^verbatim>\<open>create_address\<close> never raises a payload (\<open>create_address_poll_never_raises_payload\<close>):
  below, the allocation operation ends \<^verbatim>\<open>DONE\<close> with the error
  \<^verbatim>\<open>{'message': 'quota exceeded'}\<close> and \<^verbatim>\<open>create_address\<close> fetches the address and
  returns it normally, while the global waiter, given the same answer, raises
  \<^verbatim>\<open>Exception\<close> with exactly that payload.
\<close>

theorem create_address_ignores_operation_error:
  "create_address (mock_client done_quota_exceeded done_ok done_ok)
     ''cloud-assignment-450118'' ''us-central1'' ''vm-static-ip'' [] =
   Some (Inr (JStr ''34.1.2.3''),
     [(AddressesInsert ''cloud-assignment-450118'' ''us-central1''
         (JDict [(''name'', JStr ''vm-static-ip'')]),
       Inr [(''name'', JStr ''operation-address'')]),
      (RegionOperationsGet ''cloud-assignment-450118'' ''us-central1''
         (JStr ''operation-address''),
       Inr [(''status'', JStr ''DONE''),
            (''error'', JDict [(''message'', JStr ''quota exceeded'')])]),
      (AddressesGet ''cloud-assignment-450118'' ''us-central1'' ''vm-static-ip'',
       Inr [(''address'', JStr ''34.1.2.3'')])]) \<and>
   wait_for_global_operation (mock_client done_ok done_quota_exceeded done_ok)
     ''cloud-assignment-450118'' (JStr ''operation-firewall'') [] =
   Some (Inl (Exception (JDict [(''message'', JStr ''quota exceeded'')])),
     [(GlobalOperationsGet ''cloud-assignment-450118'' (JStr ''operation-firewall''),
       Inr [(''status'', JStr ''DONE''),
            (''error'', JDict [(''message'', JStr ''quota exceeded'')])])])"
  by (simp add: create_address_unfold create_address_poll_unfold
        wait_for_global_operation_unfold raise_on_error_def mock_client_def
        done_quota_exceeded_def)

section \<open>The orchestrator, case by case\<close>

lemma main_address_failed:
  assumes "create_address compute ''cloud-assignment-450118'' ''us-central1'' ''vm-static-ip'' []
           = Some (Inl e, tr1)"
  shows "main compute = Some (Inl e, tr1)"
  using assms by (simp add: main_def)

lemma main_firewall_failed:
  assumes "create_address compute ''cloud-assignment-450118'' ''us-central1'' ''vm-static-ip'' []
           = Some (Inr static_ip, tr1)"
    and "create_firewall_rule compute ''cloud-assignment-450118'' ''allow-ssh-http'' tr1
           = Some (Inl e, tr2)"
  shows "main compute = Some (Inl e, tr2)"
  using assms by (simp add: main_def)

lemma main_instance:
  assumes "create_address compute ''cloud-assignment-450118'' ''us-central1'' ''vm-static-ip'' []
           = Some (Inr static_ip, tr1)"
    and "create_firewall_rule compute ''cloud-assignment-450118'' ''allow-ssh-http'' tr1
           = Some (Inr (), tr2)"
  shows "main compute =
         create_instance compute ''cloud-assignment-450118'' ''us-central1-a''
           ''cloud-ca-vm-instance'' static_ip ''n1-standard-2''
           ''projects/ubuntu-os-cloud/global/images/family/ubuntu-2004-lts'' 250 tr2"
  using assms by (simp add: main_def)

lemma main_Some_cases:
  assumes "main compute = Some (r, tr)"
  shows
    "(\<exists>e. r = Inl e \<and>
          create_address compute ''cloud-assignment-450118'' ''us-central1'' ''vm-static-ip'' []
            = Some (Inl e, tr)) \<or>
     (\<exists>static_ip tr1 e. r = Inl e \<and>
          create_address compute ''cloud-assignment-450118'' ''us-central1'' ''vm-static-ip'' []
            = Some (Inr static_ip, tr1) \<and>
          create_firewall_rule compute ''cloud-assignment-450118'' ''allow-ssh-http'' tr1
            = Some (Inl e, tr)) \<or>
     (\<exists>static_ip tr1 tr2.
          create_address compute ''cloud-assignment-450118'' ''us-central1'' ''vm-static-ip'' []
            = Some (Inr static_ip, tr1) \<and>
          create_firewall_rule compute ''cloud-assignment-450118'' ''allow-ssh-http'' tr1
            = Some (Inr (), tr2) \<and>
          create_instance compute ''cloud-assignment-450118'' ''us-central1-a''
            ''cloud-ca-vm-instance'' static_ip ''n1-standard-2''
            ''projects/ubuntu-os-cloud/global/images/family/ubuntu-2004-lts'' 250 tr2
            = Some (r, tr))"
proof -
  let ?A = "create_address compute ''cloud-assignment-450118'' ''us-central1'' ''vm-static-ip'' []"
  from assms obtain ra tr1 where a: "?A = Some (ra, tr1)"
    by (cases ?A) (auto simp: main_def)
  show ?thesis
  proof (cases ra)
    case (Inl e)
    with assms a show ?thesis by (simp add: main_def)
  next
    case (Inr static_ip)
    let ?F = "create_firewall_rule compute ''cloud-assignment-450118'' ''allow-ssh-http'' tr1"
    from assms a Inr obtain rf tr2 where f: "?F = Some (rf, tr2)"
      by (cases ?F) (auto simp: main_def)
    show ?thesis
    proof (cases rf)
      case (Inl e)
      with assms a f \<open>ra = Inr static_ip\<close> show ?thesis by (auto simp: main_def)
    next
      case Inr
      with assms a f \<open>ra = Inr static_ip\<close> show ?thesis by (auto simp: main_def)
    qed
  qed
qed

section \<open>C2: the order of the three provisioners, and the first failure\<close>

text \<open>
  Claim C2. \<^verbatim>\<open>main\<close> runs the address provisioner, then the firewall provisioner, then
  the instance provisioner. If the address provisioner raises, \<^verbatim>\<open>main\<close> ends with that
  same exception and the same trace, in which every round-trip belongs to the address
  provisioner. If the firewall provisioner raises, \<^verbatim>\<open>main\<close> ends with that same
  exception and trace, no round-trip of it belongs to the instance provisioner, and the
  number of instance-create submissions is zero. Otherwise \<^verbatim>\<open>main\<close> is the instance
  provisioner's call, whatever its outcome. In every run that ends, the round-trips of
  the address provisioner come first, then those of the firewall provisioner, then those
  of the instance provisioner. A provisioner that never returns keeps \<^verbatim>\<open>main\<close> from
  returning.
\<close>

theorem main_short_circuits:
  "(create_address compute ''cloud-assignment-450118'' ''us-central1'' ''vm-static-ip'' [] = None
      \<longrightarrow> main compute = None) \<and>
   (\<forall>e tr1.
      create_address compute ''cloud-assignment-450118'' ''us-central1'' ''vm-static-ip'' []
        = Some (Inl e, tr1) \<longrightarrow>
      main compute = Some (Inl e, tr1) \<and>
      (\<forall>ev\<in>set tr1. component_of (fst ev) = Address)) \<and>
   (\<forall>static_ip tr1 e tr2.
      create_address compute ''cloud-assignment-450118'' ''us-central1'' ''vm-static-ip'' []
        = Some (Inr static_ip, tr1) \<and>
      create_firewall_rule compute ''cloud-assignment-450118'' ''allow-ssh-http'' tr1
        = Some (Inl e, tr2) \<longrightarrow>
      main compute = Some (Inl e, tr2) \<and>
      (\<forall>ev\<in>set tr2. component_of (fst ev) \<noteq> Instance) \<and>
      length (filter (\<lambda>ev. is_instances_insert (fst ev)) tr2) = 0) \<and>
   (\<forall>static_ip tr1 tr2.
      create_address compute ''cloud-assignment-450118'' ''us-central1'' ''vm-static-ip'' []
        = Some (Inr static_ip, tr1) \<and>
      create_firewall_rule compute ''cloud-assignment-450118'' ''allow-ssh-http'' tr1
        = Some (Inr (), tr2) \<longrightarrow>
      main compute =
        create_instance compute ''cloud-assignment-450118'' ''us-central1-a''
          ''cloud-ca-vm-instance'' static_ip ''n1-standard-2''
          ''projects/ubuntu-os-cloud/global/images/family/ubuntu-2004-lts'' 250 tr2) \<and>
   (\<forall>r tr.
      main compute = Some (r, tr) \<longrightarrow>
      (\<exists>address_events firewall_events instance_events.
         tr = address_events @ firewall_events @ instance_events \<and>
         (\<forall>ev\<in>set address_events. component_of (fst ev) = Address) \<and>
         (\<forall>ev\<in>set firewall_events. component_of (fst ev) = Firewall) \<and>
         (\<forall>ev\<in>set instance_events. component_of (fst ev) = Instance)))"
proof -
  let ?A = "create_address compute ''cloud-assignment-450118'' ''us-central1'' ''vm-static-ip'' []"
  let ?F = "create_firewall_rule compute ''cloud-assignment-450118'' ''allow-ssh-http''"
  let ?I = "\<lambda>static_ip. create_instance compute ''cloud-assignment-450118'' ''us-central1-a''
          ''cloud-ca-vm-instance'' static_ip ''n1-standard-2''
          ''projects/ubuntu-os-cloud/global/images/family/ubuntu-2004-lts'' 250"
  have c0: "?A = None \<longrightarrow> main compute = None"
    by (simp add: main_def)
  have address_only: "\<forall>ev\<in>set tr1. component_of (fst ev) = Address"
    if "?A = Some (ra, tr1)" for ra tr1
    using create_address_events [OF that] by simp
  have firewall_only: "\<exists>fs. tr2 = tr1 @ fs \<and> (\<forall>ev\<in>set fs. component_of (fst ev) = Firewall)"
    if "?F tr1 = Some (rf, tr2)" for rf tr1 tr2
    using create_firewall_rule_events [OF that] by simp
  have instance_only: "\<exists>es. tr3 = tr2 @ es \<and> (\<forall>ev\<in>set es. component_of (fst ev) = Instance)"
    if "?I static_ip tr2 = Some (ri, tr3)" for static_ip ri tr2 tr3
    using create_instance_events [OF that] by simp
  have c1: "\<forall>e tr1. ?A = Some (Inl e, tr1) \<longrightarrow>
      main compute = Some (Inl e, tr1) \<and> (\<forall>ev\<in>set tr1. component_of (fst ev) = Address)"
    using main_address_failed address_only by blast
  have c2: "main compute = Some (Inl e, tr2) \<and>
      (\<forall>ev\<in>set tr2. component_of (fst ev) \<noteq> Instance) \<and>
      length (filter (\<lambda>ev. is_instances_insert (fst ev)) tr2) = 0"
    if a: "?A = Some (Inr static_ip, tr1)" and f: "?F tr1 = Some (Inl e, tr2)"
    for static_ip tr1 e tr2
  proof -
    from a f have m: "main compute = Some (Inl e, tr2)" by (rule main_firewall_failed)
    from f obtain fs where fs: "tr2 = tr1 @ fs" "\<forall>ev\<in>set fs. component_of (fst ev) = Firewall"
      using firewall_only by blast
    with address_only [OF a] have n: "\<forall>ev\<in>set tr2. component_of (fst ev) \<noteq> Instance"
      by auto
    have "\<not> is_instances_insert (fst ev)" if "ev \<in> set tr2" for ev
      using n that by (cases "fst ev") auto
    then have "filter (\<lambda>ev. is_instances_insert (fst ev)) tr2 = []"
      by (simp add: filter_empty_conv)
    with m n show ?thesis by simp
  qed
  have c3: "\<forall>static_ip tr1 tr2.
      ?A = Some (Inr static_ip, tr1) \<and> ?F tr1 = Some (Inr (), tr2) \<longrightarrow>
      main compute = ?I static_ip tr2"
    using main_instance by blast
  have c4: "\<exists>address_events firewall_events instance_events.
         tr = address_events @ firewall_events @ instance_events \<and>
         (\<forall>ev\<in>set address_events. component_of (fst ev) = Address) \<and>
         (\<forall>ev\<in>set firewall_events. component_of (fst ev) = Firewall) \<and>
         (\<forall>ev\<in>set instance_events. component_of (fst ev) = Instance)"
    if m: "main compute = Some (r, tr)" for r tr
  proof -
    from main_Some_cases [OF m] consider
      (addr) e where "?A = Some (Inl e, tr)"
      | (fw) static_ip tr1 e where "?A = Some (Inr static_ip, tr1)"
          "?F tr1 = Some (Inl e, tr)"
      | (inst) static_ip tr1 tr2 where "?A = Some (Inr static_ip, tr1)"
          "?F tr1 = Some (Inr (), tr2)" "?I static_ip tr2 = Some (r, tr)"
      by blast
    then show ?thesis
    proof cases
      case addr
      from address_only [OF addr] have
        "tr = tr @ [] @ [] \<and>
         (\<forall>ev\<in>set tr. component_of (fst ev) = Address) \<and>
         (\<forall>ev\<in>set ([] :: trace). component_of (fst ev) = Firewall) \<and>
         (\<forall>ev\<in>set ([] :: trace). component_of (fst ev) = Instance)"
        by simp
      then show ?thesis by blast
    next
      case fw
      from fw(2) obtain fs where "tr = tr1 @ fs"
          "\<forall>ev\<in>set fs. component_of (fst ev) = Firewall"
        using firewall_only by blast
      with address_only [OF fw(1)] have
        "tr = tr1 @ fs @ [] \<and>
         (\<forall>ev\<in>set tr1. component_of (fst ev) = Address) \<and>
         (\<forall>ev\<in>set fs. component_of (fst ev) = Firewall) \<and>
         (\<forall>ev\<in>set ([] :: trace). component_of (fst ev) = Instance)"
        by simp
      then show ?thesis by blast
    next
      case inst
      from inst(2) obtain fs where fs: "tr2 = tr1 @ fs"
          "\<forall>ev\<in>set fs. component_of (fst ev) = Firewall"
        using firewall_only by blast
      from inst(3) obtain es where es: "tr = tr2 @ es"
          "\<forall>ev\<in>set es. component_of (fst ev) = Instance"
        using instance_only by blast
      from fs es address_only [OF inst(1)] have
        "tr = tr1 @ fs @ es \<and>
         (\<forall>ev\<in>set tr1. component_of (fst ev) = Address) \<and>
         (\<forall>ev\<in>set fs. component_of (fst ev) = Firewall) \<and>
         (\<forall>ev\<in>set es. component_of (fst ev) = Instance)"
        by simp
      then show ?thesis by blast
    qed
  qed
  from c2 have c2': "\<forall>static_ip tr1 e tr2.
      ?A = Some (Inr static_ip, tr1) \<and> ?F tr1 = Some (Inl e, tr2) \<longrightarrow>
      main compute = Some (Inl e, tr2) \<and>
      (\<forall>ev\<in>set tr2. component_of (fst ev) \<noteq> Instance) \<and>
      length (filter (\<lambda>ev. is_instances_insert (fst ev)) tr2) = 0"
    by (intro allI impI) (elim conjE)
  from c4 have c4': "\<forall>r tr.
      main compute = Some (r, tr) \<longrightarrow>
      (\<exists>address_events firewall_events instance_events.
         tr = address_events @ firewall_events @ instance_events \<and>
         (\<forall>ev\<in>set address_events. component_of (fst ev) = Address) \<and>
         (\<forall>ev\<in>set firewall_events. component_of (fst ev) = Firewall) \<and>
         (\<forall>ev\<in>set instance_events. component_of (fst ev) = Instance))"
    by (intro allI impI)
  show ?thesis by (intro conjI c0 c1 c2' c3 c4')
qed

lemma create_address_firewall_fails:
  "create_address (mock_client done_ok done_quota_exceeded done_ok)
     ''cloud-assignment-450118'' ''us-central1'' ''vm-static-ip'' [] =
   Some (Inr (JStr ''34.1.2.3''),
     [(AddressesInsert ''cloud-assignment-450118'' ''us-central1''
         (JDict [(''name'', JStr ''vm-static-ip'')]),
       Inr [(''name'', JStr ''operation-address'')]),
      (RegionOperationsGet ''cloud-assignment-450118'' ''us-central1''
         (JStr ''operation-address''),
       Inr [(''status'', JStr ''DONE'')]),
      (AddressesGet ''cloud-assignment-450118'' ''us-central1'' ''vm-static-ip'',
       Inr [(''address'', JStr ''34.1.2.3'')])])"
  by (simp add: create_address_unfold create_address_poll_unfold mock_client_def done_ok_def)

lemma create_firewall_rule_fails:
  "create_firewall_rule (mock_client done_ok done_quota_exceeded done_ok)
     ''cloud-assignment-450118'' ''allow-ssh-http''
     [(AddressesInsert ''cloud-assignment-450118'' ''us-central1''
         (JDict [(''name'', JStr ''vm-static-ip'')]),
       Inr [(''name'', JStr ''operation-address'')]),
      (RegionOperationsGet ''cloud-assignment-450118'' ''us-central1''
         (JStr ''operation-address''),
       Inr [(''status'', JStr ''DONE'')]),
      (AddressesGet ''cloud-assignment-450118'' ''us-central1'' ''vm-static-ip'',
       Inr [(''address'', JStr ''34.1.2.3'')])] =
   Some (Inl (Exception (JDict [(''message'', JStr ''quota exceeded'')])),
     [(AddressesInsert ''cloud-assignment-450118'' ''us-central1''
         (JDict [(''name'', JStr ''vm-static-ip'')]),
       Inr [(''name'', JStr ''operation-address'')]),
      (RegionOperationsGet ''cloud-assignment-450118'' ''us-central1''
         (JStr ''operation-address''),
       Inr [(''status'', JStr ''DONE'')]),
      (AddressesGet ''cloud-assignment-450118'' ''us-central1'' ''vm-static-ip'',
       Inr [(''address'', JStr ''34.1.2.3'')]),
      (FirewallsInsert ''cloud-assignment-450118'' (firewall_body ''allow-ssh-http''),
       Inr [(''name'', JStr ''operation-firewall'')]),
      (GlobalOperationsGet ''cloud-assignment-450118'' (JStr ''operation-firewall''),
       Inr [(''status'', JStr ''DONE''),
            (''error'', JDict [(''message'', JStr ''quota exceeded'')])])])"
  by (simp add: create_firewall_rule_unfold wait_for_global_operation_unfold
        raise_on_error_def mock_client_def done_quota_exceeded_def)

theorem main_short_circuits_witness:
  "main (mock_client done_ok done_quota_exceeded done_ok) =
   Some (Inl (Exception (JDict [(''message'', JStr ''quota exceeded'')])),
     [(AddressesInsert ''cloud-assignment-450118'' ''us-central1''
         (JDict [(''name'', JStr ''vm-static-ip'')]),
       Inr [(''name'', JStr ''operation-address'')]),
      (RegionOperationsGet ''cloud-assignment-450118'' ''us-central1''
         (JStr ''operation-address''),
       Inr [(''status'', JStr ''DONE'')]),
      (AddressesGet ''cloud-assignment-450118'' ''us-central1'' ''vm-static-ip'',
       Inr [(''address'', JStr ''34.1.2.3'')]),
      (FirewallsInsert ''cloud-assignment-450118'' (firewall_body ''allow-ssh-http''),
       Inr [(''name'', JStr ''operation-firewall'')]),
      (GlobalOperationsGet ''cloud-assignment-450118'' (JStr ''operation-firewall''),
       Inr [(''status'', JStr ''DONE''),
            (''error'', JDict [(''message'', JStr ''quota exceeded'')])])]) \<and>
   length (filter (\<lambda>ev. is_instances_insert (fst ev))
     [(AddressesInsert ''cloud-assignment-450118'' ''us-central1''
         (JDict [(''name'', JStr ''vm-static-ip'')]),
       Inr [(''name'', JStr ''operation-address'')]),
      (RegionOperationsGet ''cloud-assignment-450118'' ''us-central1''
         (JStr ''operation-address''),
       Inr [(''status'', JStr ''DONE'')]),
      (AddressesGet ''cloud-assignment-450118'' ''us-central1'' ''vm-static-ip'',
       Inr [(''address'', JStr ''34.1.2.3'')]),
      (FirewallsInsert ''cloud-assignment-450118'' (firewall_body ''allow-ssh-http''),
       Inr [(''name'', JStr ''operation-firewall'')]),
      (GlobalOperationsGet ''cloud-assignment-450118'' (JStr ''operation-firewall''),
       Inr [(''status'', JStr ''DONE''),
            (''error'', JDict [(''message'', JStr ''quota exceeded'')])]) :: event]) = 0"
proof -
  note t = main_short_circuits [of "mock_client done_ok done_quota_exceeded done_ok"]
  from t have "\<forall>static_ip tr1 e tr2.
      create_address (mock_client done_ok done_quota_exceeded done_ok)
        ''cloud-assignment-450118'' ''us-central1'' ''vm-static-ip'' []
        = Some (Inr static_ip, tr1) \<and>
      create_firewall_rule (mock_client done_ok done_quota_exceeded done_ok)
        ''cloud-assignment-450118'' ''allow-ssh-http'' tr1
        = Some (Inl e, tr2) \<longrightarrow>
      main (mock_client done_ok done_quota_exceeded done_ok) = Some (Inl e, tr2) \<and>
      (\<forall>ev\<in>set tr2. component_of (fst ev) \<noteq> Instance) \<and>
      length (filter (\<lambda>ev. is_instances_insert (fst ev)) tr2) = 0"
    by (elim conjE)
  with create_address_firewall_fails create_firewall_rule_fails show ?thesis
    by (elim allE impE) (rule conjI, assumption+, elim conjE, rule conjI, assumption+)
qed

lemma not_instance_not_insert:
  "component_of req \<noteq> Instance \<Longrightarrow> \<not> is_instances_insert req"
  by (cases req) simp_all

lemma main_success:
  assumes "main compute = Some (Inr (), tr)"
  shows "\<exists>static_ip tr1 tr2.
          create_address compute ''cloud-assignment-450118'' ''us-central1'' ''vm-static-ip'' []
            = Some (Inr static_ip, tr1) \<and>
          create_firewall_rule compute ''cloud-assignment-450118'' ''allow-ssh-http'' tr1
            = Some (Inr (), tr2) \<and>
          create_instance compute ''cloud-assignment-450118'' ''us-central1-a''
            ''cloud-ca-vm-instance'' static_ip ''n1-standard-2''
            ''projects/ubuntu-os-cloud/global/images/family/ubuntu-2004-lts'' 250 tr2
            = Some (Inr (), tr)"
  using main_Some_cases [OF assms] by auto

lemma main_happy:
  "main (mock_client done_ok done_ok done_ok) =
   Some (Inr (),
     [(AddressesInsert ''cloud-assignment-450118'' ''us-central1'' (JDict [(''name'', JStr ''vm-static-ip'')]),
       Inr [(''name'', JStr ''operation-address'')]),
      (RegionOperationsGet ''cloud-assignment-450118'' ''us-central1'' (JStr ''operation-address''),
       Inr [(''status'', JStr ''DONE'')]),
      (AddressesGet ''cloud-assignment-450118'' ''us-central1'' ''vm-static-ip'',
       Inr [(''address'', JStr ''34.1.2.3'')]),
      (FirewallsInsert ''cloud-assignment-450118'' (firewall_body ''allow-ssh-http''),
       Inr [(''name'', JStr ''operation-firewall'')]),
      (GlobalOperationsGet ''cloud-assignment-450118'' (JStr ''operation-firewall''),
       Inr [(''status'', JStr ''DONE'')]),
      (InstancesInsert ''cloud-assignment-450118'' ''us-central1-a''
         (config ''us-central1-a'' ''cloud-ca-vm-instance'' (JStr ''34.1.2.3'') ''n1-standard-2''
          ''projects/ubuntu-os-cloud/global/images/family/ubuntu-2004-lts'' 250),
       Inr [(''name'', JStr ''operation-instance'')]),
      (ZoneOperationsGet ''cloud-assignment-450118'' ''us-central1-a'' (JStr ''operation-instance''),
       Inr [(''status'', JStr ''DONE'')])])"
  by (simp add: main_def Let_def create_address_unfold create_address_poll_unfold
        create_firewall_rule_unfold wait_for_global_operation_unfold
        create_instance_unfold wait_for_operation_unfold
        raise_on_error_def mock_client_def done_ok_def)

section \<open>The trace of a run that ends normally\<close>

text \<open>
  Every run of \<^verbatim>\<open>main\<close> that ends normally has this trace: the allocation request;
  status queries of the operation it named; the query of that operation that is
  answered \<^verbatim>\<open>DONE\<close>; the fetch of the address; the round-trips of the firewall
  provisioner; the instance-create submission, whose \<^verbatim>\<open>natIP\<close> is the \<^verbatim>\<open>'address'\<close>
  field of the fetched resource; and the zonal status queries. No other round-trip is an
  instance-create submission.
\<close>

lemma address_DONE_before_instance_submission:
  "\<forall>tr.
     main compute = Some (Inr (), tr) \<longrightarrow>
     (\<exists>operation opname result address static_ip body resp pre mid post.
        tr = (AddressesInsert ''cloud-assignment-450118'' ''us-central1''
                (JDict [(''name'', JStr ''vm-static-ip'')]), Inr operation) # pre @
             (RegionOperationsGet ''cloud-assignment-450118'' ''us-central1'' opname,
                Inr result) #
             (AddressesGet ''cloud-assignment-450118'' ''us-central1'' ''vm-static-ip'',
                Inr address) # mid @
             (InstancesInsert ''cloud-assignment-450118'' ''us-central1-a'' body, resp) #
             post \<and>
        map_of operation ''name'' = Some opname \<and>
        map_of result ''status'' = Some (JStr ''DONE'') \<and>
        map_of address ''address'' = Some static_ip \<and>
        natIP body = Some static_ip \<and>
        (\<forall>ev\<in>set pre. \<not> is_instances_insert (fst ev)) \<and>
        (\<forall>ev\<in>set mid. \<not> is_instances_insert (fst ev)) \<and>
        (\<forall>ev\<in>set post. \<not> is_instances_insert (fst ev)))"
proof (intro allI impI)
  fix tr
  assume m: "main compute = Some (Inr (), tr)"
  let ?ins = "AddressesInsert ''cloud-assignment-450118'' ''us-central1''
                (JDict [(''name'', JStr ''vm-static-ip'')])"
  let ?get = "AddressesGet ''cloud-assignment-450118'' ''us-central1'' ''vm-static-ip''"
  from main_success [OF m] obtain static_ip tr1 tr2 where
    a: "create_address compute ''cloud-assignment-450118'' ''us-central1'' ''vm-static-ip'' []
          = Some (Inr static_ip, tr1)"
    and f: "create_firewall_rule compute ''cloud-assignment-450118'' ''allow-ssh-http'' tr1
          = Some (Inr (), tr2)"
    and i: "create_instance compute ''cloud-assignment-450118'' ''us-central1-a''
            ''cloud-ca-vm-instance'' static_ip ''n1-standard-2''
            ''projects/ubuntu-os-cloud/global/images/family/ubuntu-2004-lts'' 250 tr2
          = Some (Inr (), tr)"
    by blast
  let ?body = "config ''us-central1-a'' ''cloud-ca-vm-instance'' static_ip ''n1-standard-2''
          ''projects/ubuntu-os-cloud/global/images/family/ubuntu-2004-lts'' 250"
  from create_address_success [OF a] obtain operation tp address where
    op: "create_address_poll compute ''cloud-assignment-450118'' ''us-central1'' operation
           ([] @ [(?ins, Inr operation)]) = Some (Inr (), tp)"
    and ad: "map_of address ''address'' = Some static_ip" "tr1 = tp @ [(?get, Inr address)]"
    by blast
  from create_address_poll_success [OF op] obtain opname n result where
    p: "map_of operation ''name'' = Some opname"
      "answer compute (RegionOperationsGet ''cloud-assignment-450118'' ''us-central1'' opname)
         ([] @ [(?ins, Inr operation)]) n = Inr result"
      "map_of result ''status'' = Some (JStr ''DONE'')"
      "tp = polls compute
              (RegionOperationsGet ''cloud-assignment-450118'' ''us-central1'' opname)
              ([] @ [(?ins, Inr operation)]) (Suc n)"
    by blast
  let ?req = "RegionOperationsGet ''cloud-assignment-450118'' ''us-central1'' opname"
  from polls_same_request [of compute ?req "[] @ [(?ins, Inr operation)]" n] p(2) p(4)
  obtain pre where pre: "tp = ([] @ [(?ins, Inr operation)]) @ pre @ [(?req, Inr result)]"
      "\<forall>ev\<in>set pre. fst ev = ?req"
    by auto
  from create_firewall_rule_events [OF f] obtain mid where
    mid: "tr2 = tr1 @ mid" "\<forall>ev\<in>set mid. component_of (fst ev) = Firewall"
    by blast
  from create_instance_Some [OF i] obtain resp post where
    post: "tr = tr2 @ (InstancesInsert ''cloud-assignment-450118'' ''us-central1-a'' ?body, resp)
                 # post"
      "\<forall>ev\<in>set post. \<exists>operation.
         fst ev = ZoneOperationsGet ''cloud-assignment-450118'' ''us-central1-a'' operation"
    by blast
  from post(1) mid(1) ad(2) pre(1) have
    1: "tr = (?ins, Inr operation) # pre @ (?req, Inr result) # (?get, Inr address) # mid @
             (InstancesInsert ''cloud-assignment-450118'' ''us-central1-a'' ?body, resp) # post"
    by simp
  from pre(2) have 2: "\<forall>ev\<in>set pre. \<not> is_instances_insert (fst ev)" by simp
  from mid(2) have 3: "\<forall>ev\<in>set mid. \<not> is_instances_insert (fst ev)"
    using not_instance_not_insert by fastforce
  from post(2) have 4: "\<forall>ev\<in>set post. \<not> is_instances_insert (fst ev)" by fastforce
  have 5: "natIP ?body = Some static_ip" by (rule natIP_config)
  from 1 p(1) p(3) ad(1) 5 2 3 4
  show "\<exists>operation opname result address static_ip body resp pre mid post.
        tr = (?ins, Inr operation) # pre @ (RegionOperationsGet ''cloud-assignment-450118'' ''us-central1'' opname,
                Inr result) #
             (?get, Inr address) # mid @
             (InstancesInsert ''cloud-assignment-450118'' ''us-central1-a'' body, resp) #
             post \<and>
        map_of operation ''name'' = Some opname \<and>
        map_of result ''status'' = Some (JStr ''DONE'') \<and>
        map_of address ''address'' = Some static_ip \<and>
        natIP body = Some static_ip \<and>
        (\<forall>ev\<in>set pre. \<not> is_instances_insert (fst ev)) \<and>
        (\<forall>ev\<in>set mid. \<not> is_instances_insert (fst ev)) \<and>
        (\<forall>ev\<in>set post. \<not> is_instances_insert (fst ev))"
    by blast
qed

section \<open>Runs that never end, and their prefixes\<close>

lemma answer_cut_late:
  "n \<le> length tr + k \<Longrightarrow> answer (cut_off n compute) req tr k = Inl ''cut''"
  by (simp add: answer_def cut_off_def length_polls)

lemma cut_stops: "\<exists>k. \<not> pending (answer (cut_off n compute) req tr k)"
proof
  show "\<not> pending (answer (cut_off n compute) req tr n)"
    by (simp add: answer_cut_late pending_def)
qed

lemma wait_for_operation_returns:
  assumes "\<not> pending (answer compute (ZoneOperationsGet project zone operation) tr m)"
  shows "wait_for_operation compute project zone operation tr \<noteq> None"
proof -
  let ?req = "ZoneOperationsGet project zone operation"
  from assms obtain n where "\<forall>k<n. pending (answer compute ?req tr k)"
      "\<not> pending (answer compute ?req tr n)"
    using first_stop by blast
  then have "wait_for_operation compute project zone operation tr =
      Some (stop_result raise_on_error (answer compute ?req tr n), polls compute ?req tr (Suc n))"
    unfolding wait_for_operation_Some_iff by blast
  then show ?thesis by simp
qed

lemma wait_for_global_operation_returns:
  assumes "\<not> pending (answer compute (GlobalOperationsGet project operation) tr m)"
  shows "wait_for_global_operation compute project operation tr \<noteq> None"
proof -
  let ?req = "GlobalOperationsGet project operation"
  from assms obtain n where "\<forall>k<n. pending (answer compute ?req tr k)"
      "\<not> pending (answer compute ?req tr n)"
    using first_stop by blast
  then have "wait_for_global_operation compute project operation tr =
      Some (stop_result raise_on_error (answer compute ?req tr n), polls compute ?req tr (Suc n))"
    unfolding wait_for_global_operation_Some_iff by blast
  then show ?thesis by simp
qed

lemma create_address_poll_returns:
  assumes "map_of operation ''name'' = Some opname"
    and "\<not> pending (answer compute (RegionOperationsGet project region opname) tr m)"
  shows "create_address_poll compute project region operation tr \<noteq> None"
proof -
  let ?req = "RegionOperationsGet project region opname"
  from assms(2) obtain n where "\<forall>k<n. pending (answer compute ?req tr k)"
      "\<not> pending (answer compute ?req tr n)"
    using first_stop by blast
  then have "create_address_poll compute project region operation tr =
      Some (stop_result ignore_error (answer compute ?req tr n), polls compute ?req tr (Suc n))"
    unfolding create_address_poll_Some_iff [OF assms(1)] by blast
  then show ?thesis by simp
qed

lemma create_address_poll_cut_returns:
  "create_address_poll (cut_off n compute) project region operation tr \<noteq> None"
proof (cases "map_of operation ''name''")
  case None
  then show ?thesis by (simp add: create_address_poll_KeyError)
next
  case (Some opname)
  then show ?thesis
    using create_address_poll_returns cut_stops by blast
qed

lemma create_address_None_iff:
  "create_address compute project region address_name tr = None \<longleftrightarrow>
   (\<exists>operation.
      compute tr (AddressesInsert project region (JDict [(''name'', JStr address_name)]))
        = Inr operation \<and>
      create_address_poll compute project region operation
        (tr @ [(AddressesInsert project region (JDict [(''name'', JStr address_name)]),
                Inr operation)]) = None)"
  by (auto simp: create_address_unfold split: sum.splits option.splits prod.splits)

lemma create_firewall_rule_None_iff:
  "create_firewall_rule compute project firewall_name tr = None \<longleftrightarrow>
   (\<exists>operation opname.
      compute tr (FirewallsInsert project (firewall_body firewall_name)) = Inr operation \<and>
      map_of operation ''name'' = Some opname \<and>
      wait_for_global_operation compute project opname
        (tr @ [(FirewallsInsert project (firewall_body firewall_name), Inr operation)])
        = None)"
  by (auto simp: create_firewall_rule_unfold split: sum.splits option.splits)

lemma create_instance_None_iff:
  "create_instance compute project zone instance_name static_ip machine_type source_image
     disk_size_gb tr = None \<longleftrightarrow>
   (\<exists>operation opname.
      compute tr
        (InstancesInsert project zone
           (config zone instance_name static_ip machine_type source_image disk_size_gb))
        = Inr operation \<and>
      map_of operation ''name'' = Some opname \<and>
      wait_for_operation compute project zone opname
        (tr @ [(InstancesInsert project zone
                  (config zone instance_name static_ip machine_type source_image
                     disk_size_gb), Inr operation)]) = None)"
  by (auto simp: create_instance_unfold split: sum.splits option.splits)

lemma create_address_cut_returns:
  "create_address (cut_off n compute) project region address_name tr \<noteq> None"
  unfolding create_address_None_iff using create_address_poll_cut_returns by blast

lemma create_firewall_rule_cut_returns:
  "create_firewall_rule (cut_off n compute) project firewall_name tr \<noteq> None"
  unfolding create_firewall_rule_None_iff
  using wait_for_global_operation_returns cut_stops by blast

lemma create_instance_cut_returns:
  "create_instance (cut_off n compute) project zone instance_name static_ip machine_type
     source_image disk_size_gb tr \<noteq> None"
  unfolding create_instance_None_iff
  using wait_for_operation_returns cut_stops by blast

lemma main_None_cases:
  assumes "main compute = None"
  shows
    "create_address compute ''cloud-assignment-450118'' ''us-central1'' ''vm-static-ip'' []
       = None \<or>
     (\<exists>static_ip tr1.
        create_address compute ''cloud-assignment-450118'' ''us-central1'' ''vm-static-ip'' []
          = Some (Inr static_ip, tr1) \<and>
        create_firewall_rule compute ''cloud-assignment-450118'' ''allow-ssh-http'' tr1
          = None) \<or>
     (\<exists>static_ip tr1 tr2.
        create_address compute ''cloud-assignment-450118'' ''us-central1'' ''vm-static-ip'' []
          = Some (Inr static_ip, tr1) \<and>
        create_firewall_rule compute ''cloud-assignment-450118'' ''allow-ssh-http'' tr1
          = Some (Inr (), tr2) \<and>
        create_instance compute ''cloud-assignment-450118'' ''us-central1-a''
          ''cloud-ca-vm-instance'' static_ip ''n1-standard-2''
          ''projects/ubuntu-os-cloud/global/images/family/ubuntu-2004-lts'' 250 tr2
          = None)"
  using assms
  by (auto simp: main_def Let_def split: option.splits sum.splits prod.splits)

lemma main_cut_returns: "main (cut_off n compute) \<noteq> None"
proof
  assume "main (cut_off n compute) = None"
  from main_None_cases [OF this] show False
    by (elim disjE exE conjE)
       (simp_all add: create_address_cut_returns create_firewall_rule_cut_returns
          create_instance_cut_returns)
qed

section \<open>C8: the firewall rule that is submitted\<close>

text \<open>
  Claim C8. For every firewall name the rule body has its name, exactly one allow entry
  (protocol \<^verbatim>\<open>tcp\<close>, ports \<^verbatim>\<open>22\<close> and \<^verbatim>\<open>80\<close>), direction \<^verbatim>\<open>INGRESS\<close> and the
  single source range \<^verbatim>\<open>0.0.0.0/0\<close>, and two bodies differ in the name only. This body
  is what \<^verbatim>\<open>create_firewall_rule\<close> submits, in its first round-trip and in no other:
  a call that ends has it at the head of what it added to the trace; a call that never
  ends has had its submission accepted and is the global waiter running on from the trace
  that holds it; and against a client cut off after any number of round-trips the call
  ends, so that the trace of every prefix of a run shows the submission.
\<close>

theorem firewall_rule_spec_is_static:
  "jget ''name'' (firewall_body firewall_name) = Some (JStr firewall_name) \<and>
   jget ''allowed'' (firewall_body firewall_name) =
     Some (JList [JDict [(''IPProtocol'', JStr ''tcp''),
                         (''ports'', JList [JStr ''22'', JStr ''80''])]]) \<and>
   jget ''direction'' (firewall_body firewall_name) = Some (JStr ''INGRESS'') \<and>
   jget ''sourceRanges'' (firewall_body firewall_name) = Some (JList [JStr ''0.0.0.0/0'']) \<and>
   (\<forall>k. k \<noteq> ''name'' \<longrightarrow>
        jget k (firewall_body firewall_name) = jget k (firewall_body other_name)) \<and>
   (\<forall>r tr'. create_firewall_rule compute project firewall_name tr = Some (r, tr') \<longrightarrow>
      (\<exists>rest. tr' = tr @ (FirewallsInsert project (firewall_body firewall_name),
                           compute tr (FirewallsInsert project (firewall_body firewall_name)))
                         # rest \<and>
              (\<forall>ev\<in>set rest. \<not> is_firewalls_insert (fst ev)))) \<and>
   (create_firewall_rule compute project firewall_name tr = None \<longrightarrow>
      (\<exists>operation opname.
         compute tr (FirewallsInsert project (firewall_body firewall_name)) = Inr operation \<and>
         map_of operation ''name'' = Some opname \<and>
         wait_for_global_operation compute project opname
           (tr @ [(FirewallsInsert project (firewall_body firewall_name), Inr operation)])
           = None)) \<and>
   (\<forall>n. create_firewall_rule (cut_off n compute) project firewall_name tr \<noteq> None)"
proof -
  have body: "jget ''name'' (firewall_body firewall_name) = Some (JStr firewall_name)"
    "jget ''allowed'' (firewall_body firewall_name) =
       Some (JList [JDict [(''IPProtocol'', JStr ''tcp''),
                           (''ports'', JList [JStr ''22'', JStr ''80''])]])"
    "jget ''direction'' (firewall_body firewall_name) = Some (JStr ''INGRESS'')"
    "jget ''sourceRanges'' (firewall_body firewall_name) = Some (JList [JStr ''0.0.0.0/0''])"
    by (simp_all add: firewall_body_def)
  have same: "\<forall>k. k \<noteq> ''name'' \<longrightarrow>
        jget k (firewall_body firewall_name) = jget k (firewall_body other_name)"
    by (simp add: firewall_body_def)
  have sub: "\<exists>rest. tr' = tr @ (FirewallsInsert project (firewall_body firewall_name),
                           compute tr (FirewallsInsert project (firewall_body firewall_name)))
                         # rest \<and>
              (\<forall>ev\<in>set rest. \<not> is_firewalls_insert (fst ev))"
    if "create_firewall_rule compute project firewall_name tr = Some (r, tr')" for r tr'
  proof -
    from that obtain rest where
      "tr' = tr @ (FirewallsInsert project (firewall_body firewall_name),
                   compute tr (FirewallsInsert project (firewall_body firewall_name))) # rest"
      "\<forall>ev\<in>set rest. \<exists>operation. fst ev = GlobalOperationsGet project operation"
      using create_firewall_rule_Some by blast
    then show ?thesis by fastforce
  qed
  from sub have sub': "\<forall>r tr'.
      create_firewall_rule compute project firewall_name tr = Some (r, tr') \<longrightarrow>
      (\<exists>rest. tr' = tr @ (FirewallsInsert project (firewall_body firewall_name),
                           compute tr (FirewallsInsert project (firewall_body firewall_name)))
                         # rest \<and>
              (\<forall>ev\<in>set rest. \<not> is_firewalls_insert (fst ev)))"
    by (intro allI impI)
  have unbounded: "create_firewall_rule compute project firewall_name tr = None \<longrightarrow>
      (\<exists>operation opname.
         compute tr (FirewallsInsert project (firewall_body firewall_name)) = Inr operation \<and>
         map_of operation ''name'' = Some opname \<and>
         wait_for_global_operation compute project opname
           (tr @ [(FirewallsInsert project (firewall_body firewall_name), Inr operation)])
           = None)"
    by (simp only: create_firewall_rule_None_iff) simp
  have prefixes: "\<forall>n. create_firewall_rule (cut_off n compute) project firewall_name tr \<noteq> None"
    by (intro allI create_firewall_rule_cut_returns)
  show ?thesis by (intro conjI body same sub' unbounded prefixes)
qed

lemma create_firewall_rule_stuck:
  "create_firewall_rule (cut_off 4 (mock_client done_ok still_running done_ok))
     ''cloud-assignment-450118'' ''allow-ssh-http'' [] =
   Some (Inl (HttpError ''cut''),
     [(FirewallsInsert ''cloud-assignment-450118'' (firewall_body ''allow-ssh-http''),
       Inr [(''name'', JStr ''operation-firewall'')]),
      (GlobalOperationsGet ''cloud-assignment-450118'' (JStr ''operation-firewall''),
       Inr [(''status'', JStr ''RUNNING'')]),
      (GlobalOperationsGet ''cloud-assignment-450118'' (JStr ''operation-firewall''),
       Inr [(''status'', JStr ''RUNNING'')]),
      (GlobalOperationsGet ''cloud-assignment-450118'' (JStr ''operation-firewall''),
       Inr [(''status'', JStr ''RUNNING'')]),
      (GlobalOperationsGet ''cloud-assignment-450118'' (JStr ''operation-firewall''),
       Inl ''cut'')])"
  by (simp add: create_firewall_rule_unfold wait_for_global_operation_unfold
        raise_on_error_def cut_off_def mock_client_def still_running_def)

theorem firewall_rule_spec_is_static_witness:
  "jget ''direction'' (firewall_body ''allow-ssh-http'') =
     jget ''direction'' (firewall_body ''allow-dns'') \<and>
   create_firewall_rule (cut_off 4 (mock_client done_ok still_running done_ok))
     ''cloud-assignment-450118'' ''allow-ssh-http'' [] \<noteq> None \<and>
   (\<exists>rest.
      [(FirewallsInsert ''cloud-assignment-450118'' (firewall_body ''allow-ssh-http''),
        Inr [(''name'', JStr ''operation-firewall'')]),
       (GlobalOperationsGet ''cloud-assignment-450118'' (JStr ''operation-firewall''),
        Inr [(''status'', JStr ''RUNNING'')]),
       (GlobalOperationsGet ''cloud-assignment-450118'' (JStr ''operation-firewall''),
        Inr [(''status'', JStr ''RUNNING'')]),
       (GlobalOperationsGet ''cloud-assignment-450118'' (JStr ''operation-firewall''),
        Inr [(''status'', JStr ''RUNNING'')]),
       (GlobalOperationsGet ''cloud-assignment-450118'' (JStr ''operation-firewall''),
        Inl ''cut'')] =
      [] @ (FirewallsInsert ''cloud-assignment-450118'' (firewall_body ''allow-ssh-http''),
            cut_off 4 (mock_client done_ok still_running done_ok) []
              (FirewallsInsert ''cloud-assignment-450118'' (firewall_body ''allow-ssh-http'')))
           # rest \<and>
      (\<forall>ev\<in>set rest. \<not> is_firewalls_insert (fst ev)))"
proof -
  note t = firewall_rule_spec_is_static
      [of "''allow-ssh-http''" "''allow-dns''"
          "cut_off 4 (mock_client done_ok still_running done_ok)"
          "''cloud-assignment-450118''" "[]"]
  note u = firewall_rule_spec_is_static
      [of "''allow-ssh-http''" "''allow-dns''"
          "mock_client done_ok still_running done_ok"
          "''cloud-assignment-450118''" "[]"]
  have d: "''direction'' \<noteq> ''name''" by simp
  from t have "\<forall>k. k \<noteq> ''name'' \<longrightarrow>
      jget k (firewall_body ''allow-ssh-http'') = jget k (firewall_body ''allow-dns'')"
    by (elim conjE)
  with d have 1: "jget ''direction'' (firewall_body ''allow-ssh-http'') =
     jget ''direction'' (firewall_body ''allow-dns'')"
    by (elim allE impE)
  from u have "\<forall>n. create_firewall_rule (cut_off n (mock_client done_ok still_running done_ok))
      ''cloud-assignment-450118'' ''allow-ssh-http'' [] \<noteq> None"
    by (elim conjE)
  then have 2: "create_firewall_rule (cut_off 4 (mock_client done_ok still_running done_ok))
      ''cloud-assignment-450118'' ''allow-ssh-http'' [] \<noteq> None"
    by (rule spec)
  from t have "\<forall>r tr'.
      create_firewall_rule (cut_off 4 (mock_client done_ok still_running done_ok))
        ''cloud-assignment-450118'' ''allow-ssh-http'' [] = Some (r, tr') \<longrightarrow>
      (\<exists>rest. tr' = [] @ (FirewallsInsert ''cloud-assignment-450118''
                              (firewall_body ''allow-ssh-http''),
                           cut_off 4 (mock_client done_ok still_running done_ok) []
                             (FirewallsInsert ''cloud-assignment-450118''
                                (firewall_body ''allow-ssh-http'')))
                         # rest \<and>
              (\<forall>ev\<in>set rest. \<not> is_firewalls_insert (fst ev)))"
    by (elim conjE)
  with create_firewall_rule_stuck have 3: "\<exists>rest.
      [(FirewallsInsert ''cloud-assignment-450118'' (firewall_body ''allow-ssh-http''),
        Inr [(''name'', JStr ''operation-firewall'')]),
       (GlobalOperationsGet ''cloud-assignment-450118'' (JStr ''operation-firewall''),
        Inr [(''status'', JStr ''RUNNING'')]),
       (GlobalOperationsGet ''cloud-assignment-450118'' (JStr ''operation-firewall''),
        Inr [(''status'', JStr ''RUNNING'')]),
       (GlobalOperationsGet ''cloud-assignment-450118'' (JStr ''operation-firewall''),
        Inr [(''status'', JStr ''RUNNING'')]),
       (GlobalOperationsGet ''cloud-assignment-450118'' (JStr ''operation-firewall''),
        Inl ''cut'')] =
      [] @ (FirewallsInsert ''cloud-assignment-450118'' (firewall_body ''allow-ssh-http''),
            cut_off 4 (mock_client done_ok still_running done_ok) []
              (FirewallsInsert ''cloud-assignment-450118'' (firewall_body ''allow-ssh-http'')))
           # rest \<and>
      (\<forall>ev\<in>set rest. \<not> is_firewalls_insert (fst ev))"
    by (elim allE impE)
  from 1 2 3 show ?thesis by (intro conjI)
qed

section \<open>C3: the address in the instance specification\<close>

text \<open>
  Claim C3. In a run of \<^verbatim>\<open>main\<close> that ends, each instance-create submission has as
  \<^verbatim>\<open>natIP\<close> of the access config of its body exactly the value that the address
  provisioner returned at the start of this same run (the JSON value itself: nothing
  converts or formats it on the way); once the address and the firewall provisioner have
  returned, such a submission is the next round-trip; and a run that ends normally has
  made one. A run of \<^verbatim>\<open>main\<close> that never ends is stuck in the address provisioner, or
  in the firewall provisioner, or it has submitted the instance with that \<^verbatim>\<open>natIP\<close>,
  the submission was accepted, and the run is the zonal waiter going on from the trace
  that holds the submission. Against a client cut off after any number of round-trips
  \<^verbatim>\<open>main\<close> ends, so the first part holds of every prefix of every run.
\<close>

theorem instance_natIP_is_allocated_address:
  "(\<forall>r tr.
     main compute = Some (r, tr) \<longrightarrow>
     (\<forall>project zone body resp.
        (InstancesInsert project zone body, resp) \<in> set tr \<longrightarrow>
        (\<exists>static_ip tr1 rest.
           create_address compute ''cloud-assignment-450118'' ''us-central1''
             ''vm-static-ip'' [] = Some (Inr static_ip, tr1) \<and>
           tr = tr1 @ rest \<and>
           natIP body = Some static_ip)) \<and>
     (\<forall>static_ip tr1 tr2.
        create_address compute ''cloud-assignment-450118'' ''us-central1''
          ''vm-static-ip'' [] = Some (Inr static_ip, tr1) \<and>
        create_firewall_rule compute ''cloud-assignment-450118'' ''allow-ssh-http'' tr1
          = Some (Inr (), tr2) \<longrightarrow>
        (\<exists>body resp rest.
           tr = tr2 @ (InstancesInsert ''cloud-assignment-450118'' ''us-central1-a'' body, resp)
                    # rest \<and>
           natIP body = Some static_ip)) \<and>
     (r = Inr () \<longrightarrow>
        (\<exists>body resp.
           (InstancesInsert ''cloud-assignment-450118'' ''us-central1-a'' body, resp)
             \<in> set tr))) \<and>
   (main compute = None \<longrightarrow>
      create_address compute ''cloud-assignment-450118'' ''us-central1'' ''vm-static-ip'' []
        = None \<or>
      (\<exists>static_ip tr1.
         create_address compute ''cloud-assignment-450118'' ''us-central1'' ''vm-static-ip'' []
           = Some (Inr static_ip, tr1) \<and>
         create_firewall_rule compute ''cloud-assignment-450118'' ''allow-ssh-http'' tr1
           = None) \<or>
      (\<exists>static_ip tr1 tr2 body operation opname.
         create_address compute ''cloud-assignment-450118'' ''us-central1'' ''vm-static-ip'' []
           = Some (Inr static_ip, tr1) \<and>
         create_firewall_rule compute ''cloud-assignment-450118'' ''allow-ssh-http'' tr1
           = Some (Inr (), tr2) \<and>
         natIP body = Some static_ip \<and>
         compute tr2 (InstancesInsert ''cloud-assignment-450118'' ''us-central1-a'' body)
           = Inr operation \<and>
         map_of operation ''name'' = Some opname \<and>
         wait_for_operation compute ''cloud-assignment-450118'' ''us-central1-a'' opname
           (tr2 @ [(InstancesInsert ''cloud-assignment-450118'' ''us-central1-a'' body,
                    Inr operation)]) = None)) \<and>
   (\<forall>n. main (cut_off n compute) \<noteq> None)"
proof -
  let ?A = "create_address compute ''cloud-assignment-450118'' ''us-central1'' ''vm-static-ip'' []"
  let ?F = "create_firewall_rule compute ''cloud-assignment-450118'' ''allow-ssh-http''"
  let ?I = "\<lambda>static_ip. create_instance compute ''cloud-assignment-450118'' ''us-central1-a''
          ''cloud-ca-vm-instance'' static_ip ''n1-standard-2''
          ''projects/ubuntu-os-cloud/global/images/family/ubuntu-2004-lts'' 250"
  let ?body = "\<lambda>static_ip. config ''us-central1-a'' ''cloud-ca-vm-instance'' static_ip
          ''n1-standard-2''
          ''projects/ubuntu-os-cloud/global/images/family/ubuntu-2004-lts'' 250"
  have finished:
    "(\<forall>project zone body resp.
        (InstancesInsert project zone body, resp) \<in> set tr \<longrightarrow>
        (\<exists>static_ip tr1 rest. ?A = Some (Inr static_ip, tr1) \<and> tr = tr1 @ rest \<and>
           natIP body = Some static_ip)) \<and>
     (\<forall>static_ip tr1 tr2.
        ?A = Some (Inr static_ip, tr1) \<and> ?F tr1 = Some (Inr (), tr2) \<longrightarrow>
        (\<exists>body resp rest.
           tr = tr2 @ (InstancesInsert ''cloud-assignment-450118'' ''us-central1-a'' body, resp)
                    # rest \<and>
           natIP body = Some static_ip)) \<and>
     (r = Inr () \<longrightarrow>
        (\<exists>body resp.
           (InstancesInsert ''cloud-assignment-450118'' ''us-central1-a'' body, resp)
             \<in> set tr))"
    if m: "main compute = Some (r, tr)" for r tr
  proof -
    from main_Some_cases [OF m] consider
      (addr) e where "r = Inl e" "?A = Some (Inl e, tr)"
      | (fw) static_ip tr1 e where "r = Inl e" "?A = Some (Inr static_ip, tr1)"
          "?F tr1 = Some (Inl e, tr)"
      | (inst) static_ip tr1 tr2 where "?A = Some (Inr static_ip, tr1)"
          "?F tr1 = Some (Inr (), tr2)" "?I static_ip tr2 = Some (r, tr)"
      by blast
    then show ?thesis
    proof cases
      case addr
      from create_address_events [OF addr(2)]
      have "\<forall>ev\<in>set tr. component_of (fst ev) = Address" by simp
      then have "\<forall>ev\<in>set tr. \<not> is_instances_insert (fst ev)"
        using not_instance_not_insert by fastforce
      with addr show ?thesis by fastforce
    next
      case fw
      from create_address_events [OF fw(2)]
      have a: "\<forall>ev\<in>set tr1. component_of (fst ev) = Address" by simp
      from create_firewall_rule_events [OF fw(3)] obtain fs where
        "tr = tr1 @ fs" "\<forall>ev\<in>set fs. component_of (fst ev) = Firewall" by blast
      with a have "\<forall>ev\<in>set tr. component_of (fst ev) \<noteq> Instance" by auto
      then have "\<forall>ev\<in>set tr. \<not> is_instances_insert (fst ev)"
        using not_instance_not_insert by blast
      with fw show ?thesis by fastforce
    next
      case inst
      from create_address_events [OF inst(1)]
      have a: "\<forall>ev\<in>set tr1. component_of (fst ev) = Address" by simp
      from create_firewall_rule_events [OF inst(2)] obtain fs where
        fs: "tr2 = tr1 @ fs" "\<forall>ev\<in>set fs. component_of (fst ev) = Firewall" by blast
      from create_instance_Some [OF inst(3)] obtain resp0 rest where
        i: "tr = tr2 @ (InstancesInsert ''cloud-assignment-450118'' ''us-central1-a''
                          (?body static_ip), resp0) # rest"
          "\<forall>ev\<in>set rest. \<exists>operation.
             fst ev = ZoneOperationsGet ''cloud-assignment-450118'' ''us-central1-a'' operation"
        by blast
      have only: "body = ?body static_ip"
        if "(InstancesInsert project zone body, resp) \<in> set tr" for project zone body resp
      proof -
        from that i(1) fs(1) have
          "(InstancesInsert project zone body, resp) \<in> set tr1 \<or>
           (InstancesInsert project zone body, resp) \<in> set fs \<or>
           (InstancesInsert project zone body, resp) =
             (InstancesInsert ''cloud-assignment-450118'' ''us-central1-a''
                (?body static_ip), resp0) \<or>
           (InstancesInsert project zone body, resp) \<in> set rest"
          by auto
        then show ?thesis
        proof (elim disjE)
          assume "(InstancesInsert project zone body, resp) \<in> set tr1"
          with a show ?thesis by fastforce
        next
          assume "(InstancesInsert project zone body, resp) \<in> set fs"
          with fs(2) show ?thesis by fastforce
        next
          assume "(InstancesInsert project zone body, resp) =
             (InstancesInsert ''cloud-assignment-450118'' ''us-central1-a''
                (?body static_ip), resp0)"
          then show ?thesis by simp
        next
          assume "(InstancesInsert project zone body, resp) \<in> set rest"
          with i(2) show ?thesis by fastforce
        qed
      qed
      have 1: "\<exists>static_ip tr1 rest. ?A = Some (Inr static_ip, tr1) \<and> tr = tr1 @ rest \<and>
             natIP body = Some static_ip"
        if "(InstancesInsert project zone body, resp) \<in> set tr" for project zone body resp
      proof -
        from only [OF that] have "natIP body = Some static_ip" by (simp add: natIP_config)
        moreover from i(1) fs(1) have "tr = tr1 @ (fs @
            (InstancesInsert ''cloud-assignment-450118'' ''us-central1-a''
               (?body static_ip), resp0) # rest)"
          by simp
        ultimately show ?thesis using inst(1) by blast
      qed
      have 2: "\<exists>body resp rest.
           tr = t2 @ (InstancesInsert ''cloud-assignment-450118'' ''us-central1-a'' body, resp)
                    # rest \<and>
           natIP body = Some ip"
        if "?A = Some (Inr ip, t1)" "?F t1 = Some (Inr (), t2)" for ip t1 t2
      proof -
        from that inst(1) inst(2) have "ip = static_ip" "t2 = tr2" by simp_all
        with i(1) natIP_config [of "''us-central1-a''" "''cloud-ca-vm-instance''" static_ip]
        show ?thesis by blast
      qed
      from i(1) have 3: "\<exists>body resp.
             (InstancesInsert ''cloud-assignment-450118'' ''us-central1-a'' body, resp)
               \<in> set tr"
        by auto
      from 1 2 3 show ?thesis by blast
    qed
  qed
  have unbounded: "main compute = None \<longrightarrow>
      ?A = None \<or>
      (\<exists>static_ip tr1. ?A = Some (Inr static_ip, tr1) \<and> ?F tr1 = None) \<or>
      (\<exists>static_ip tr1 tr2 body operation opname.
         ?A = Some (Inr static_ip, tr1) \<and> ?F tr1 = Some (Inr (), tr2) \<and>
         natIP body = Some static_ip \<and>
         compute tr2 (InstancesInsert ''cloud-assignment-450118'' ''us-central1-a'' body)
           = Inr operation \<and>
         map_of operation ''name'' = Some opname \<and>
         wait_for_operation compute ''cloud-assignment-450118'' ''us-central1-a'' opname
           (tr2 @ [(InstancesInsert ''cloud-assignment-450118'' ''us-central1-a'' body,
                    Inr operation)]) = None)"
  proof
    assume "main compute = None"
    from main_None_cases [OF this] consider
      (addr) "?A = None"
      | (fw) static_ip tr1 where "?A = Some (Inr static_ip, tr1)" "?F tr1 = None"
      | (inst) static_ip tr1 tr2 where "?A = Some (Inr static_ip, tr1)"
          "?F tr1 = Some (Inr (), tr2)" "?I static_ip tr2 = None"
      by (elim disjE exE conjE) blast+
    then show "?A = None \<or>
      (\<exists>static_ip tr1. ?A = Some (Inr static_ip, tr1) \<and> ?F tr1 = None) \<or>
      (\<exists>static_ip tr1 tr2 body operation opname.
         ?A = Some (Inr static_ip, tr1) \<and> ?F tr1 = Some (Inr (), tr2) \<and>
         natIP body = Some static_ip \<and>
         compute tr2 (InstancesInsert ''cloud-assignment-450118'' ''us-central1-a'' body)
           = Inr operation \<and>
         map_of operation ''name'' = Some opname \<and>
         wait_for_operation compute ''cloud-assignment-450118'' ''us-central1-a'' opname
           (tr2 @ [(InstancesInsert ''cloud-assignment-450118'' ''us-central1-a'' body,
                    Inr operation)]) = None)"
    proof cases
      case addr
      then show ?thesis by blast
    next
      case fw
      then show ?thesis by blast
    next
      case inst
      from inst(3) obtain operation opname where
        "compute tr2 (InstancesInsert ''cloud-assignment-450118'' ''us-central1-a''
                        (?body static_ip)) = Inr operation"
        "map_of operation ''name'' = Some opname"
        "wait_for_operation compute ''cloud-assignment-450118'' ''us-central1-a'' opname
           (tr2 @ [(InstancesInsert ''cloud-assignment-450118'' ''us-central1-a''
                      (?body static_ip), Inr operation)]) = None"
        unfolding create_instance_None_iff by blast
      with inst(1) inst(2)
        natIP_config [of "''us-central1-a''" "''cloud-ca-vm-instance''" static_ip]
      show ?thesis by blast
    qed
  qed
  from finished have finished': "\<forall>r tr.
     main compute = Some (r, tr) \<longrightarrow>
     (\<forall>project zone body resp.
        (InstancesInsert project zone body, resp) \<in> set tr \<longrightarrow>
        (\<exists>static_ip tr1 rest. ?A = Some (Inr static_ip, tr1) \<and> tr = tr1 @ rest \<and>
           natIP body = Some static_ip)) \<and>
     (\<forall>static_ip tr1 tr2.
        ?A = Some (Inr static_ip, tr1) \<and> ?F tr1 = Some (Inr (), tr2) \<longrightarrow>
        (\<exists>body resp rest.
           tr = tr2 @ (InstancesInsert ''cloud-assignment-450118'' ''us-central1-a'' body, resp)
                    # rest \<and>
           natIP body = Some static_ip)) \<and>
     (r = Inr () \<longrightarrow>
        (\<exists>body resp.
           (InstancesInsert ''cloud-assignment-450118'' ''us-central1-a'' body, resp)
             \<in> set tr))"
    by (intro allI impI)
  have prefixes: "\<forall>n. main (cut_off n compute) \<noteq> None"
    by (intro allI main_cut_returns)
  show ?thesis by (intro conjI finished' unbounded prefixes)
qed

lemma main_stuck_cut_off:
  "main (cut_off 8 (mock_client done_ok done_ok still_running)) =
   Some (Inl (HttpError ''cut''),
     [(AddressesInsert ''cloud-assignment-450118'' ''us-central1'' (JDict [(''name'', JStr ''vm-static-ip'')]),
       Inr [(''name'', JStr ''operation-address'')]),
      (RegionOperationsGet ''cloud-assignment-450118'' ''us-central1'' (JStr ''operation-address''),
       Inr [(''status'', JStr ''DONE'')]),
      (AddressesGet ''cloud-assignment-450118'' ''us-central1'' ''vm-static-ip'',
       Inr [(''address'', JStr ''34.1.2.3'')]),
      (FirewallsInsert ''cloud-assignment-450118'' (firewall_body ''allow-ssh-http''),
       Inr [(''name'', JStr ''operation-firewall'')]),
      (GlobalOperationsGet ''cloud-assignment-450118'' (JStr ''operation-firewall''),
       Inr [(''status'', JStr ''DONE'')]),
      (InstancesInsert ''cloud-assignment-450118'' ''us-central1-a''
         (config ''us-central1-a'' ''cloud-ca-vm-instance'' (JStr ''34.1.2.3'') ''n1-standard-2''
          ''projects/ubuntu-os-cloud/global/images/family/ubuntu-2004-lts'' 250),
       Inr [(''name'', JStr ''operation-instance'')]),
      (ZoneOperationsGet ''cloud-assignment-450118'' ''us-central1-a'' (JStr ''operation-instance''),
       Inr [(''status'', JStr ''RUNNING'')]),
      (ZoneOperationsGet ''cloud-assignment-450118'' ''us-central1-a'' (JStr ''operation-instance''),
       Inr [(''status'', JStr ''RUNNING'')]),
      (ZoneOperationsGet ''cloud-assignment-450118'' ''us-central1-a'' (JStr ''operation-instance''),
       Inl ''cut'')])"
  by (simp add: main_def Let_def create_address_unfold create_address_poll_unfold
        create_firewall_rule_unfold wait_for_global_operation_unfold
        create_instance_unfold wait_for_operation_unfold
        raise_on_error_def cut_off_def mock_client_def done_ok_def still_running_def)

lemma wait_for_operation_never_returns:
  assumes "\<forall>k. pending (answer compute (ZoneOperationsGet project zone operation) tr k)"
  shows "wait_for_operation compute project zone operation tr = None"
  by (rule Some_iff_None
        [where f = "wait_for_operation compute project zone operation"
           and req = "ZoneOperationsGet project zone operation" and g = raise_on_error,
         OF wait_for_operation_Some_iff assms])

lemma main_stuck:
  "main (mock_client done_ok done_ok still_running) = None"
proof -
  have z: "wait_for_operation (mock_client done_ok done_ok still_running) project zone operation tr = None"
    for project zone operation tr
    by (rule wait_for_operation_never_returns)
       (simp add: answer_def mock_client_def still_running_def pending_def)
  have d: "map_of done_ok ''status'' = Some (JStr ''DONE'')" "map_of done_ok ''error'' = None"
    by (simp_all add: done_ok_def)
  show ?thesis
    by (simp add: main_def Let_def create_address_unfold create_address_poll_unfold
          create_firewall_rule_unfold wait_for_global_operation_unfold
          create_instance_unfold raise_on_error_def mock_client_def d z)
qed

lemma create_address_zone_stuck:
  "create_address (mock_client done_ok done_ok still_running)
     ''cloud-assignment-450118'' ''us-central1'' ''vm-static-ip'' [] =
   Some (Inr (JStr ''34.1.2.3''),
     [(AddressesInsert ''cloud-assignment-450118'' ''us-central1'' (JDict [(''name'', JStr ''vm-static-ip'')]),
       Inr [(''name'', JStr ''operation-address'')]),
      (RegionOperationsGet ''cloud-assignment-450118'' ''us-central1'' (JStr ''operation-address''),
       Inr [(''status'', JStr ''DONE'')]),
      (AddressesGet ''cloud-assignment-450118'' ''us-central1'' ''vm-static-ip'',
       Inr [(''address'', JStr ''34.1.2.3'')])])"
  by (simp add: create_address_unfold create_address_poll_unfold mock_client_def done_ok_def)

lemma create_firewall_rule_zone_stuck:
  "create_firewall_rule (mock_client done_ok done_ok still_running)
     ''cloud-assignment-450118'' ''allow-ssh-http''
     [(AddressesInsert ''cloud-assignment-450118'' ''us-central1'' (JDict [(''name'', JStr ''vm-static-ip'')]),
       Inr [(''name'', JStr ''operation-address'')]),
      (RegionOperationsGet ''cloud-assignment-450118'' ''us-central1'' (JStr ''operation-address''),
       Inr [(''status'', JStr ''DONE'')]),
      (AddressesGet ''cloud-assignment-450118'' ''us-central1'' ''vm-static-ip'',
       Inr [(''address'', JStr ''34.1.2.3'')])] =
   Some (Inr (),
     [(AddressesInsert ''cloud-assignment-450118'' ''us-central1'' (JDict [(''name'', JStr ''vm-static-ip'')]),
       Inr [(''name'', JStr ''operation-address'')]),
      (RegionOperationsGet ''cloud-assignment-450118'' ''us-central1'' (JStr ''operation-address''),
       Inr [(''status'', JStr ''DONE'')]),
      (AddressesGet ''cloud-assignment-450118'' ''us-central1'' ''vm-static-ip'',
       Inr [(''address'', JStr ''34.1.2.3'')]),
      (FirewallsInsert ''cloud-assignment-450118'' (firewall_body ''allow-ssh-http''),
       Inr [(''name'', JStr ''operation-firewall'')]),
      (GlobalOperationsGet ''cloud-assignment-450118'' (JStr ''operation-firewall''),
       Inr [(''status'', JStr ''DONE'')])])"
  by (simp add: create_firewall_rule_unfold wait_for_global_operation_unfold
        raise_on_error_def mock_client_def done_ok_def)

theorem instance_natIP_is_allocated_address_witness:
  "(\<exists>static_ip tr1 rest.
      create_address (mock_client done_ok done_ok done_ok) ''cloud-assignment-450118'' ''us-central1''
        ''vm-static-ip'' [] = Some (Inr static_ip, tr1) \<and>
      [(AddressesInsert ''cloud-assignment-450118'' ''us-central1'' (JDict [(''name'', JStr ''vm-static-ip'')]),
       Inr [(''name'', JStr ''operation-address'')]),
      (RegionOperationsGet ''cloud-assignment-450118'' ''us-central1'' (JStr ''operation-address''),
       Inr [(''status'', JStr ''DONE'')]),
      (AddressesGet ''cloud-assignment-450118'' ''us-central1'' ''vm-static-ip'',
       Inr [(''address'', JStr ''34.1.2.3'')]),
      (FirewallsInsert ''cloud-assignment-450118'' (firewall_body ''allow-ssh-http''),
       Inr [(''name'', JStr ''operation-firewall'')]),
      (GlobalOperationsGet ''cloud-assignment-450118'' (JStr ''operation-firewall''),
       Inr [(''status'', JStr ''DONE'')]),
      (InstancesInsert ''cloud-assignment-450118'' ''us-central1-a''
         (config ''us-central1-a'' ''cloud-ca-vm-instance'' (JStr ''34.1.2.3'') ''n1-standard-2''
          ''projects/ubuntu-os-cloud/global/images/family/ubuntu-2004-lts'' 250),
       Inr [(''name'', JStr ''operation-instance'')]),
      (ZoneOperationsGet ''cloud-assignment-450118'' ''us-central1-a'' (JStr ''operation-instance''),
       Inr [(''status'', JStr ''DONE'')])] = tr1 @ rest \<and>
      natIP (config ''us-central1-a'' ''cloud-ca-vm-instance'' (JStr ''34.1.2.3'') ''n1-standard-2''
          ''projects/ubuntu-os-cloud/global/images/family/ubuntu-2004-lts'' 250) = Some static_ip) \<and>
   main (cut_off 8 (mock_client done_ok done_ok still_running)) \<noteq> None \<and>
   (\<exists>static_ip tr1 rest.
      create_address (cut_off 8 (mock_client done_ok done_ok still_running)) ''cloud-assignment-450118'' ''us-central1''
        ''vm-static-ip'' [] = Some (Inr static_ip, tr1) \<and>
      [(AddressesInsert ''cloud-assignment-450118'' ''us-central1'' (JDict [(''name'', JStr ''vm-static-ip'')]),
       Inr [(''name'', JStr ''operation-address'')]),
      (RegionOperationsGet ''cloud-assignment-450118'' ''us-central1'' (JStr ''operation-address''),
       Inr [(''status'', JStr ''DONE'')]),
      (AddressesGet ''cloud-assignment-450118'' ''us-central1'' ''vm-static-ip'',
       Inr [(''address'', JStr ''34.1.2.3'')]),
      (FirewallsInsert ''cloud-assignment-450118'' (firewall_body ''allow-ssh-http''),
       Inr [(''name'', JStr ''operation-firewall'')]),
      (GlobalOperationsGet ''cloud-assignment-450118'' (JStr ''operation-firewall''),
       Inr [(''status'', JStr ''DONE'')]),
      (InstancesInsert ''cloud-assignment-450118'' ''us-central1-a''
         (config ''us-central1-a'' ''cloud-ca-vm-instance'' (JStr ''34.1.2.3'') ''n1-standard-2''
          ''projects/ubuntu-os-cloud/global/images/family/ubuntu-2004-lts'' 250),
       Inr [(''name'', JStr ''operation-instance'')]),
      (ZoneOperationsGet ''cloud-assignment-450118'' ''us-central1-a'' (JStr ''operation-instance''),
       Inr [(''status'', JStr ''RUNNING'')]),
      (ZoneOperationsGet ''cloud-assignment-450118'' ''us-central1-a'' (JStr ''operation-instance''),
       Inr [(''status'', JStr ''RUNNING'')]),
      (ZoneOperationsGet ''cloud-assignment-450118'' ''us-central1-a'' (JStr ''operation-instance''),
       Inl ''cut'')] = tr1 @ rest \<and>
      natIP (config ''us-central1-a'' ''cloud-ca-vm-instance'' (JStr ''34.1.2.3'') ''n1-standard-2''
          ''projects/ubuntu-os-cloud/global/images/family/ubuntu-2004-lts'' 250) = Some static_ip) \<and>
   main (mock_client done_ok done_ok still_running) = None \<and>
   (\<exists>static_ip tr1 tr2 body operation opname.
       create_address (mock_client done_ok done_ok still_running) ''cloud-assignment-450118'' ''us-central1'' ''vm-static-ip'' []
         = Some (Inr static_ip, tr1) \<and>
       create_firewall_rule (mock_client done_ok done_ok still_running) ''cloud-assignment-450118'' ''allow-ssh-http'' tr1
         = Some (Inr (), tr2) \<and>
       natIP body = Some static_ip \<and>
       (mock_client done_ok done_ok still_running) tr2 (InstancesInsert ''cloud-assignment-450118'' ''us-central1-a'' body)
         = Inr operation \<and>
       map_of operation ''name'' = Some opname \<and>
       wait_for_operation (mock_client done_ok done_ok still_running) ''cloud-assignment-450118'' ''us-central1-a'' opname
         (tr2 @ [(InstancesInsert ''cloud-assignment-450118'' ''us-central1-a'' body,
                  Inr operation)]) = None)"
proof -
  note happy = instance_natIP_is_allocated_address [of "mock_client done_ok done_ok done_ok",
    THEN conjunct1, rule_format, OF main_happy, THEN conjunct1, rule_format]
  note stuck = instance_natIP_is_allocated_address
    [of "cut_off 8 (mock_client done_ok done_ok still_running)",
     THEN conjunct1, rule_format, OF main_stuck_cut_off, THEN conjunct1, rule_format]
  note rest = instance_natIP_is_allocated_address
    [of "mock_client done_ok done_ok still_running", THEN conjunct2]
  have 1: "(InstancesInsert ''cloud-assignment-450118'' ''us-central1-a''
         (config ''us-central1-a'' ''cloud-ca-vm-instance'' (JStr ''34.1.2.3'') ''n1-standard-2''
          ''projects/ubuntu-os-cloud/global/images/family/ubuntu-2004-lts'' 250),
       Inr [(''name'', JStr ''operation-instance'')]) \<in> set
     [(AddressesInsert ''cloud-assignment-450118'' ''us-central1'' (JDict [(''name'', JStr ''vm-static-ip'')]),
       Inr [(''name'', JStr ''operation-address'')]),
      (RegionOperationsGet ''cloud-assignment-450118'' ''us-central1'' (JStr ''operation-address''),
       Inr [(''status'', JStr ''DONE'')]),
      (AddressesGet ''cloud-assignment-450118'' ''us-central1'' ''vm-static-ip'',
       Inr [(''address'', JStr ''34.1.2.3'')]),
      (FirewallsInsert ''cloud-assignment-450118'' (firewall_body ''allow-ssh-http''),
       Inr [(''name'', JStr ''operation-firewall'')]),
      (GlobalOperationsGet ''cloud-assignment-450118'' (JStr ''operation-firewall''),
       Inr [(''status'', JStr ''DONE'')]),
      (InstancesInsert ''cloud-assignment-450118'' ''us-central1-a''
         (config ''us-central1-a'' ''cloud-ca-vm-instance'' (JStr ''34.1.2.3'') ''n1-standard-2''
          ''projects/ubuntu-os-cloud/global/images/family/ubuntu-2004-lts'' 250),
       Inr [(''name'', JStr ''operation-instance'')]),
      (ZoneOperationsGet ''cloud-assignment-450118'' ''us-central1-a'' (JStr ''operation-instance''),
       Inr [(''status'', JStr ''DONE'')])]"
    by simp
  have 2: "(InstancesInsert ''cloud-assignment-450118'' ''us-central1-a''
         (config ''us-central1-a'' ''cloud-ca-vm-instance'' (JStr ''34.1.2.3'') ''n1-standard-2''
          ''projects/ubuntu-os-cloud/global/images/family/ubuntu-2004-lts'' 250),
       Inr [(''name'', JStr ''operation-instance'')]) \<in> set
     [(AddressesInsert ''cloud-assignment-450118'' ''us-central1'' (JDict [(''name'', JStr ''vm-static-ip'')]),
       Inr [(''name'', JStr ''operation-address'')]),
      (RegionOperationsGet ''cloud-assignment-450118'' ''us-central1'' (JStr ''operation-address''),
       Inr [(''status'', JStr ''DONE'')]),
      (AddressesGet ''cloud-assignment-450118'' ''us-central1'' ''vm-static-ip'',
       Inr [(''address'', JStr ''34.1.2.3'')]),
      (FirewallsInsert ''cloud-assignment-450118'' (firewall_body ''allow-ssh-http''),
       Inr [(''name'', JStr ''operation-firewall'')]),
      (GlobalOperationsGet ''cloud-assignment-450118'' (JStr ''operation-firewall''),
       Inr [(''status'', JStr ''DONE'')]),
      (InstancesInsert ''cloud-assignment-450118'' ''us-central1-a''
         (config ''us-central1-a'' ''cloud-ca-vm-instance'' (JStr ''34.1.2.3'') ''n1-standard-2''
          ''projects/ubuntu-os-cloud/global/images/family/ubuntu-2004-lts'' 250),
       Inr [(''name'', JStr ''operation-instance'')]),
      (ZoneOperationsGet ''cloud-assignment-450118'' ''us-central1-a'' (JStr ''operation-instance''),
       Inr [(''status'', JStr ''RUNNING'')]),
      (ZoneOperationsGet ''cloud-assignment-450118'' ''us-central1-a'' (JStr ''operation-instance''),
       Inr [(''status'', JStr ''RUNNING'')]),
      (ZoneOperationsGet ''cloud-assignment-450118'' ''us-central1-a'' (JStr ''operation-instance''),
       Inl ''cut'')]"
    by simp
  from rest have 3: "main (cut_off 8 (mock_client done_ok done_ok still_running)) \<noteq> None"
    by (elim conjE allE)
  from rest main_stuck have 4:
   "create_address (mock_client done_ok done_ok still_running) ''cloud-assignment-450118'' ''us-central1'' ''vm-static-ip'' [] = None \<or>
    (\<exists>static_ip tr1.
       create_address (mock_client done_ok done_ok still_running) ''cloud-assignment-450118'' ''us-central1'' ''vm-static-ip'' []
         = Some (Inr static_ip, tr1) \<and>
       create_firewall_rule (mock_client done_ok done_ok still_running) ''cloud-assignment-450118'' ''allow-ssh-http'' tr1
         = None) \<or>
    (\<exists>static_ip tr1 tr2 body operation opname.
       create_address (mock_client done_ok done_ok still_running) ''cloud-assignment-450118'' ''us-central1'' ''vm-static-ip'' []
         = Some (Inr static_ip, tr1) \<and>
       create_firewall_rule (mock_client done_ok done_ok still_running) ''cloud-assignment-450118'' ''allow-ssh-http'' tr1
         = Some (Inr (), tr2) \<and>
       natIP body = Some static_ip \<and>
       (mock_client done_ok done_ok still_running) tr2 (InstancesInsert ''cloud-assignment-450118'' ''us-central1-a'' body)
         = Inr operation \<and>
       map_of operation ''name'' = Some opname \<and>
       wait_for_operation (mock_client done_ok done_ok still_running) ''cloud-assignment-450118'' ''us-central1-a'' opname
         (tr2 @ [(InstancesInsert ''cloud-assignment-450118'' ''us-central1-a'' body,
                  Inr operation)]) = None)"
    by (elim conjE impE)
  from 4 have 5: "\<exists>static_ip tr1 tr2 body operation opname.
       create_address (mock_client done_ok done_ok still_running) ''cloud-assignment-450118'' ''us-central1'' ''vm-static-ip'' []
         = Some (Inr static_ip, tr1) \<and>
       create_firewall_rule (mock_client done_ok done_ok still_running) ''cloud-assignment-450118'' ''allow-ssh-http'' tr1
         = Some (Inr (), tr2) \<and>
       natIP body = Some static_ip \<and>
       (mock_client done_ok done_ok still_running) tr2 (InstancesInsert ''cloud-assignment-450118'' ''us-central1-a'' body)
         = Inr operation \<and>
       map_of operation ''name'' = Some opname \<and>
       wait_for_operation (mock_client done_ok done_ok still_running) ''cloud-assignment-450118'' ''us-central1-a'' opname
         (tr2 @ [(InstancesInsert ''cloud-assignment-450118'' ''us-central1-a'' body,
                  Inr operation)]) = None"
  proof (elim disjE)
    assume "create_address (mock_client done_ok done_ok still_running) ''cloud-assignment-450118'' ''us-central1'' ''vm-static-ip'' [] = None"
    with create_address_zone_stuck show ?thesis by simp
  next
    assume "\<exists>static_ip tr1.
       create_address (mock_client done_ok done_ok still_running) ''cloud-assignment-450118'' ''us-central1'' ''vm-static-ip'' []
         = Some (Inr static_ip, tr1) \<and>
       create_firewall_rule (mock_client done_ok done_ok still_running) ''cloud-assignment-450118'' ''allow-ssh-http'' tr1
         = None"
    then obtain static_ip tr1 where
      "create_address (mock_client done_ok done_ok still_running) ''cloud-assignment-450118'' ''us-central1'' ''vm-static-ip'' []
         = Some (Inr static_ip, tr1)"
      "create_firewall_rule (mock_client done_ok done_ok still_running) ''cloud-assignment-450118'' ''allow-ssh-http'' tr1
         = None"
      by blast
    with create_address_zone_stuck create_firewall_rule_zone_stuck show ?thesis by simp
  qed
  from happy [OF 1] 3 stuck [OF 2] main_stuck 5 show ?thesis by (intro conjI)
qed


section \<open>C5: the address allocation and the instance submission\<close>

text \<open>
  Claim C5 asks that the instance is submitted only after the address allocation has
  ended in success. The code makes sure of the terminal status only
  (\<open>address_DONE_before_instance_submission\<close>): the regional loop of
  \<^verbatim>\<open>create_address\<close> does not look at the error payload, which is the defect of claim
  C1. Below, the allocation operation ends \<^verbatim>\<open>DONE\<close> with the error
  \<^verbatim>\<open>{'message': 'quota exceeded'}\<close>, and \<^verbatim>\<open>main\<close> goes on: it fetches an address,
  submits the instance with it and returns normally.
\<close>

theorem main_submits_instance_after_failed_allocation:
  "main (mock_client done_quota_exceeded done_ok done_ok) =
   Some (Inr (),
     [(AddressesInsert ''cloud-assignment-450118'' ''us-central1'' (JDict [(''name'', JStr ''vm-static-ip'')]),
       Inr [(''name'', JStr ''operation-address'')]),
      (RegionOperationsGet ''cloud-assignment-450118'' ''us-central1'' (JStr ''operation-address''),
       Inr [(''status'', JStr ''DONE''),
            (''error'', JDict [(''message'', JStr ''quota exceeded'')])]),
      (AddressesGet ''cloud-assignment-450118'' ''us-central1'' ''vm-static-ip'',
       Inr [(''address'', JStr ''34.1.2.3'')]),
      (FirewallsInsert ''cloud-assignment-450118'' (firewall_body ''allow-ssh-http''),
       Inr [(''name'', JStr ''operation-firewall'')]),
      (GlobalOperationsGet ''cloud-assignment-450118'' (JStr ''operation-firewall''),
       Inr [(''status'', JStr ''DONE'')]),
      (InstancesInsert ''cloud-assignment-450118'' ''us-central1-a''
         (config ''us-central1-a'' ''cloud-ca-vm-instance'' (JStr ''34.1.2.3'') ''n1-standard-2''
          ''projects/ubuntu-os-cloud/global/images/family/ubuntu-2004-lts'' 250),
       Inr [(''name'', JStr ''operation-instance'')]),
      (ZoneOperationsGet ''cloud-assignment-450118'' ''us-central1-a'' (JStr ''operation-instance''),
       Inr [(''status'', JStr ''DONE'')])])"
  by (simp add: main_def Let_def create_address_unfold create_address_poll_unfold
        create_firewall_rule_unfold wait_for_global_operation_unfold
        create_instance_unfold wait_for_operation_unfold
        raise_on_error_def mock_client_def done_ok_def done_quota_exceeded_def)

end
